(* ===== verification/JS_Core.thy ===== *)
theory JS_Core
  imports Complex_Main "HOL-Library.Word"
begin

text \<open>
  Prelude of the development: the JavaScript values the server handles, its strings, the
  errors it throws and the generic operations (truthiness, \<open>||\<close>, property reads, the
  fallible \<open>Array.prototype.map\<close> and \<open>filter\<close>, \<open>String.prototype.trim\<close>,
  \<open>Array.prototype.join\<close>) that every component of \<open>src/src/index.ts\<close> uses.
  A JS string is a list of UTF-16 code units (\<open>16 word\<close>), so that \<open>substring\<close> counts
  what the engine counts; ASCII literals are written \<open>js ''...''\<close>.
\<close>

named_theorems js_lit "unfolding of literals and constant values, for evaluation"
named_theorems type_errors "an operation fails only with an engine TypeError"

type_synonym cu = "16 word"
type_synonym jstr = "cu list"

definition js :: "string \<Rightarrow> jstr" where
  "js s = map (\<lambda>c. word_of_nat (of_char c)) s"


subsection \<open>Values\<close>

text \<open>
  The values that \<open>response.json()\<close> and the MCP transport deliver, plus \<open>undefined\<close>
  (a missing property). Numbers are finite IEEE doubles (JSON has no NaN or infinities),
  held as their exact rational value. Objects are the association list of their members
  in source order; \<open>JSON.parse\<close> keeps the last of duplicate members.
\<close>

datatype jsval =
    JUndef
  | JNull
  | JBool bool
  | JNum rat
  | JStr jstr
  | JArr "jsval list"
  | JObj "(jstr \<times> jsval) list"

text \<open>The property names the code reads; none of them is a property of a primitive
  value's prototype, of \<open>Array.prototype\<close> or of \<open>Object.prototype\<close>.\<close>

datatype key =
    K_retrieval_nodes | K_node | K_text | K_content | K_metadata | K_file_name
  | K_filename | K_score | K_answer | K_response | K_source_nodes | K_sources
  | K_question | K_query | K_top_k

fun key_name :: "key \<Rightarrow> jstr" where
  "key_name K_retrieval_nodes = js ''retrieval_nodes''"
| "key_name K_node = js ''node''"
| "key_name K_text = js ''text''"
| "key_name K_content = js ''content''"
| "key_name K_metadata = js ''metadata''"
| "key_name K_file_name = js ''file_name''"
| "key_name K_filename = js ''filename''"
| "key_name K_score = js ''score''"
| "key_name K_answer = js ''answer''"
| "key_name K_response = js ''response''"
| "key_name K_source_nodes = js ''source_nodes''"
| "key_name K_sources = js ''sources''"
| "key_name K_question = js ''question''"
| "key_name K_query = js ''query''"
| "key_name K_top_k = js ''top_k''"

text \<open>The built-in methods the code calls on values of unknown type.\<close>

datatype builtin = M_map | M_trim | M_substring | M_toFixed

subsection \<open>Errors\<close>

text \<open>
  Every way a tool call can fail: the two errors the dispatcher throws, the upstream
  status error, a rejected \<open>fetch\<close>, a body that is not JSON, and the engine's
  \<open>TypeError\<close>s (reading a property of \<open>null\<close>/\<open>undefined\<close>, calling a method on
  one, calling a method the value does not have, converting to a string an object whose own
  \<open>toString\<close> member is not a function: \<open>Cannot convert object to primitive value\<close>).
\<close>

datatype error =
    NoArguments jstr
  | UnknownTool jstr
  | ApiError nat jstr
  | FetchFailed
  | JsonSyntaxError
  | ReadOfNullish key
  | CallOnNullish builtin
  | NotAFunction builtin
  | NoPrimitive

type_synonym 'a res = "error + 'a"

text \<open>The errors the engine raises while reading a payload, as opposed to those the
  program or the network raise.\<close>

fun type_error :: "error \<Rightarrow> bool" where
  "type_error (ReadOfNullish _) = True"
| "type_error (CallOnNullish _) = True"
| "type_error (NotAFunction _) = True"
| "type_error NoPrimitive = True"
| "type_error _ = False"

definition ebind :: "'a res \<Rightarrow> ('a \<Rightarrow> 'b res) \<Rightarrow> 'b res" where
  "ebind r f = (case r of Inl e \<Rightarrow> Inl e | Inr x \<Rightarrow> f x)"

subsection \<open>Truthiness, \<open>||\<close>, property reads\<close>

fun truthy :: "jsval \<Rightarrow> bool" where
  "truthy JUndef = False"
| "truthy JNull = False"
| "truthy (JBool b) = b"
| "truthy (JNum x) = (x \<noteq> 0)"
| "truthy (JStr s) = (s \<noteq> [])"
| "truthy (JArr _) = True"
| "truthy (JObj _) = True"

definition js_or :: "jsval \<Rightarrow> jsval \<Rightarrow> jsval" where
  "js_or a b = (if truthy a then a else b)"

definition nullish :: "jsval \<Rightarrow> bool" where
  "nullish v \<longleftrightarrow> v = JUndef \<or> v = JNull"

text \<open>\<open>v.k\<close>: a \<open>TypeError\<close> on \<open>null\<close> and \<open>undefined\<close>, the last member named
  \<open>k\<close> of an object, and \<open>undefined\<close> on every other value.\<close>

fun get_prop :: "jsval \<Rightarrow> key \<Rightarrow> jsval res" where
  "get_prop JUndef k = Inl (ReadOfNullish k)"
| "get_prop JNull k = Inl (ReadOfNullish k)"
| "get_prop (JObj kvs) k =
     Inr (case map_of (rev kvs) (key_name k) of None \<Rightarrow> JUndef | Some v \<Rightarrow> v)"
| "get_prop (JBool _) k = Inr JUndef"
| "get_prop (JNum _) k = Inr JUndef"
| "get_prop (JStr _) k = Inr JUndef"
| "get_prop (JArr _) k = Inr JUndef"

text \<open>\<open>v?.k\<close>: \<open>undefined\<close> when \<open>v\<close> is \<open>null\<close> or \<open>undefined\<close>.\<close>

definition opt_get :: "jsval \<Rightarrow> key \<Rightarrow> jsval" where
  "opt_get v k = (case get_prop v k of Inl _ \<Rightarrow> JUndef | Inr r \<Rightarrow> r)"

text \<open>The error of calling method \<open>m\<close> on a value that does not have it.\<close>

definition no_method :: "jsval \<Rightarrow> builtin \<Rightarrow> 'a res" where
  "no_method v m = Inl (if nullish v then CallOnNullish m else NotAFunction m)"

subsection \<open>Fallible array traversals\<close>

text \<open>\<open>xs.map(f)\<close> where \<open>f\<close> may throw: the elements are visited in order and the first
  exception ends the traversal.\<close>

fun map_res :: "('a \<Rightarrow> 'b res) \<Rightarrow> 'a list \<Rightarrow> 'b list res" where
  "map_res f [] = Inr []"
| "map_res f (x # xs) = ebind (f x) (\<lambda>y. ebind (map_res f xs) (\<lambda>ys. Inr (y # ys)))"

text \<open>\<open>xs.map((x, index) => \<dots>)\<close>: the callback also receives the index.\<close>

definition map_idx_res :: "(nat \<Rightarrow> 'a \<Rightarrow> 'b res) \<Rightarrow> 'a list \<Rightarrow> 'b list res" where
  "map_idx_res f xs = map_res (\<lambda>(i, x). f i x) (enumerate 0 xs)"

text \<open>\<open>xs.filter(p)\<close> where \<open>p\<close> may throw.\<close>

fun filter_res :: "('a \<Rightarrow> bool res) \<Rightarrow> 'a list \<Rightarrow> 'a list res" where
  "filter_res p [] = Inr []"
| "filter_res p (x # xs) =
     ebind (p x) (\<lambda>b. ebind (filter_res p xs) (\<lambda>ys. Inr (if b then x # ys else ys)))"

subsection \<open>Strings\<close>

text \<open>\<open>WhiteSpace\<close> and \<open>LineTerminator\<close> code units of ECMA-262, which \<open>trim\<close>
  removes at both ends.\<close>

definition js_ws :: "cu \<Rightarrow> bool" where
  "js_ws c \<longleftrightarrow> c \<in> {0x09, 0x0A, 0x0B, 0x0C, 0x0D, 0x20, 0xA0, 0x1680, 0x2028, 0x2029,
                    0x202F, 0x205F, 0x3000, 0xFEFF}
              \<or> (0x2000 \<le> c \<and> c \<le> 0x200A)"

definition js_trim :: "jstr \<Rightarrow> jstr" where
  "js_trim s = rev (dropWhile js_ws (rev (dropWhile js_ws s)))"

text \<open>\<open>Array.prototype.join(sep)\<close> on an array of strings.\<close>

fun join :: "jstr \<Rightarrow> jstr list \<Rightarrow> jstr" where
  "join sep [] = []"
| "join sep [x] = x"
| "join sep (x # y # zs) = x @ sep @ join sep (y # zs)"

text \<open>Decimal digits of a natural number, as \<open>String(n)\<close> prints an integer.\<close>

definition digit :: "nat \<Rightarrow> cu" where
  "digit d = word_of_nat (48 + d)"

fun decimal :: "nat \<Rightarrow> jstr" where
  "decimal n = (if n < 10 then [digit n] else decimal (n div 10) @ [digit (n mod 10)])"

declare decimal.simps [simp del]

text \<open>The string inside a value known to be one.\<close>

definition is_str :: "jsval \<Rightarrow> bool" where
  "is_str v = (case v of JStr _ \<Rightarrow> True | _ \<Rightarrow> False)"

definition str_of :: "jsval \<Rightarrow> jstr" where
  "str_of v = (case v of JStr s \<Rightarrow> s | _ \<Rightarrow> [])"

text \<open>Reading decimal digits back, for the round trip of \<open>decimal\<close>.\<close>

definition read_decimal :: "jstr \<Rightarrow> nat" where
  "read_decimal s = foldl (\<lambda>a c. 10 * a + (unat c - 48)) 0 s"

subsection \<open>Lemmas on the fallible traversals\<close>

lemma ebind_Inl [simp]: "ebind (Inl e) f = Inl e"
  and ebind_Inr [simp]: "ebind (Inr x) f = f x"
  by (simp_all add: ebind_def)

lemma ebind_eq_Inr:
  "ebind r f = Inr y \<longleftrightarrow> (\<exists>x. r = Inr x \<and> f x = Inr y)"
  by (cases r) simp_all

lemma map_res_Inr_iff:
  "map_res f xs = Inr ys \<longleftrightarrow> list_all2 (\<lambda>x y. f x = Inr y) xs ys"
  by (induction xs arbitrary: ys) (auto simp: ebind_eq_Inr list_all2_Cons1)

lemma map_res_ok:
  "(\<And>x. x \<in> set xs \<Longrightarrow> f x = Inr (g x)) \<Longrightarrow> map_res f xs = Inr (map g xs)"
  by (induction xs) simp_all

lemma map_res_Inr_D:
  assumes "map_res f xs = Inr ys"
  shows "(\<forall>x\<in>set xs. f x = Inr (projr (f x))) \<and> ys = map (\<lambda>x. projr (f x)) xs"
  using assms by (induction xs arbitrary: ys) (auto simp: ebind_eq_Inr)

lemma map_res_Inl_if:
  "x \<in> set xs \<Longrightarrow> f x = Inl e \<Longrightarrow> \<exists>e'. map_res f xs = Inl e'"
  by (induction xs) (auto simp: ebind_def split: sum.splits)

lemma map_res_length:
  "map_res f xs = Inr ys \<Longrightarrow> length ys = length xs"
  by (auto simp: map_res_Inr_iff dest: list_all2_lengthD)

lemma map_res_append_Inl:
  assumes "map_res f xs = Inr ys" and "f x = Inl e"
  shows "map_res f (xs @ x # zs) = Inl e"
  using assms by (induction xs arbitrary: ys) (auto simp: ebind_eq_Inr)

lemma map_res_Inl_ex:
  "map_res f xs = Inl e \<Longrightarrow> \<exists>x\<in>set xs. f x = Inl e"
  by (induction xs) (auto simp: ebind_def split: sum.splits)

lemma map_idx_res_Inr_iff:
  "map_idx_res f xs = Inr ys \<longleftrightarrow>
     length ys = length xs \<and> (\<forall>i<length xs. f i (xs ! i) = Inr (ys ! i))"
  by (auto simp: map_idx_res_def map_res_Inr_iff list_all2_conv_all_nth nth_enumerate_eq)

text \<open>A callback that numbers its element \<open>index + 1\<close> numbers the result \<open>1..n\<close>.\<close>

lemma map_idx_res_ids:
  assumes "map_idx_res f xs = Inr ys" and "\<And>i x y. f i x = Inr y \<Longrightarrow> g y = Suc i"
  shows "map g ys = [1..<Suc (length ys)]"
proof (rule nth_equalityI)
  fix i
  assume "i < length (map g ys)"
  with assms show "map g ys ! i = [1..<Suc (length ys)] ! i"
    by (auto simp: map_idx_res_Inr_iff nth_upt simp del: upt_Suc)
qed (simp del: upt_Suc)

lemma map_idx_res_ok:
  assumes "\<And>i. i < length xs \<Longrightarrow> f i (xs ! i) = Inr (g i (xs ! i))"
  shows "map_idx_res f xs = Inr (map2 g [0..<length xs] xs)"
  using assms by (simp add: map_idx_res_Inr_iff)

lemma filter_res_ok:
  "(\<And>x. x \<in> set xs \<Longrightarrow> p x = Inr (P x)) \<Longrightarrow> filter_res p xs = Inr (filter P xs)"
  by (induction xs) simp_all

lemma filter_res_Inl_ex:
  "filter_res p xs = Inl e \<Longrightarrow> \<exists>x\<in>set xs. p x = Inl e"
  by (induction xs) (auto simp: ebind_def split: sum.splits)

lemma ebind_InlE:
  assumes "ebind r f = Inl e"
  obtains "r = Inl e" | x where "r = Inr x" and "f x = Inl e"
  using assms by (cases r) simp_all

lemma map_res_type_error:
  "map_res f xs = Inl e \<Longrightarrow> (\<And>x e. f x = Inl e \<Longrightarrow> type_error e) \<Longrightarrow> type_error e"
  by (blast dest: map_res_Inl_ex)

lemma map_idx_res_type_error:
  "map_idx_res f xs = Inl e \<Longrightarrow> (\<And>i x e. f i x = Inl e \<Longrightarrow> type_error e) \<Longrightarrow> type_error e"
  by (auto simp: map_idx_res_def dest!: map_res_Inl_ex)

lemma filter_res_type_error:
  "filter_res p xs = Inl e \<Longrightarrow> (\<And>x e. p x = Inl e \<Longrightarrow> type_error e) \<Longrightarrow> type_error e"
  by (blast dest: filter_res_Inl_ex)

subsection \<open>Lemmas on values and strings\<close>

lemma get_prop_type_error [type_errors]: "get_prop v k = Inl e \<Longrightarrow> type_error e"
  by (cases v) auto

lemma no_method_type_error [type_errors]: "no_method v m = Inl e \<Longrightarrow> type_error e"
  by (auto simp: no_method_def split: if_splits)


lemma get_prop_Inl_iff:
  "get_prop v k = Inl e \<longleftrightarrow> nullish v \<and> e = ReadOfNullish k"
  by (cases v) (auto simp: nullish_def)

lemma get_prop_Inr_not_nullish: "get_prop v k = Inr r \<Longrightarrow> \<not> nullish v"
  by (cases v) (simp_all add: nullish_def)

lemma get_prop_not_nullish:
  "\<not> nullish v \<Longrightarrow> get_prop v k = Inr (opt_get v k)"
  by (cases v) (auto simp: nullish_def opt_get_def)

lemma opt_get_nullish [simp]:
  "opt_get JUndef k = JUndef" "opt_get JNull k = JUndef"
  by (simp_all add: opt_get_def)

lemma str_of_JStr [simp]: "str_of (JStr s) = s"
  by (simp add: str_of_def)

lemma is_str_iff: "is_str v \<longleftrightarrow> v = JStr (str_of v)"
  by (cases v) (simp_all add: is_str_def str_of_def)

lemma truthy_not_nullish: "truthy v \<Longrightarrow> \<not> nullish v"
  by (auto simp: nullish_def)

lemma js_or_truthy [simp]: "truthy a \<Longrightarrow> js_or a b = a"
  and js_or_falsy [simp]: "\<not> truthy a \<Longrightarrow> js_or a b = b"
  by (simp_all add: js_or_def)

lemma js_trim_Nil_iff: "js_trim s = [] \<longleftrightarrow> (\<forall>c\<in>set s. js_ws c)"
proof
  assume t: "js_trim s = []"
  let ?d = "dropWhile js_ws s"
  from t have all: "\<forall>c\<in>set ?d. js_ws c"
    by (simp add: js_trim_def dropWhile_eq_Nil_conv)
  have "?d = []"
  proof (rule ccontr)
    assume "?d \<noteq> []"
    then have "\<not> js_ws (hd ?d)" by (rule hd_dropWhile)
    with all \<open>?d \<noteq> []\<close> show False by simp
  qed
  then show "\<forall>c\<in>set s. js_ws c" by (simp add: dropWhile_eq_Nil_conv)
next
  assume "\<forall>c\<in>set s. js_ws c"
  then show "js_trim s = []" by (auto simp: js_trim_def dest: set_dropWhileD)
qed

lemma truthy_trim: "truthy (JStr (js_trim s)) \<longleftrightarrow> (\<exists>c\<in>set s. \<not> js_ws c)"
  by (simp add: js_trim_Nil_iff)

lemma decimal_ne [simp]: "decimal n \<noteq> []"
  by (subst decimal.simps) simp

lemma read_decimal_snoc:
  "read_decimal (s @ [c]) = 10 * read_decimal s + (unat c - 48)"
  by (simp add: read_decimal_def)

lemma unat_digit: "d < 10 \<Longrightarrow> unat (digit d) = 48 + d"
  unfolding digit_def by (simp only: unat_of_nat) simp

lemma read_decimal_decimal: "read_decimal (decimal n) = n"
proof (induction n rule: decimal.induct)
  case (1 n)
  show ?case
  proof (cases "n < 10")
    case True
    then show ?thesis
      by (simp add: decimal.simps [of n] read_decimal_def unat_digit)
  next
    case False
    with "1.IH" have "read_decimal (decimal (n div 10)) = n div 10" by simp
    with False show ?thesis
      by (simp add: decimal.simps [of n] read_decimal_snoc unat_digit)
  qed
qed

declare js_def [js_lit] digit_def [js_lit] js_trim_def [js_lit] js_ws_def [js_lit]
  opt_get_def [js_lit] js_or_def [js_lit] nullish_def [js_lit] no_method_def [js_lit]
  is_str_def [js_lit] str_of_def [js_lit]

end
