(* ===== verification/JS_Number.thy ===== *)
theory JS_Number
  imports JS_Core
begin

text \<open>
  The engine's number formatting that the rendered text depends on, on finite doubles held
  as their exact rational value: rounding a rational to the nearest double
  (\<open>round_double\<close>, ties to even), \<open>Number::toString\<close> of ECMA-262 (the shortest
  decimal that rounds back to the number, then the fixed or exponential layout),
  \<open>Number.prototype.toFixed\<close> and \<open>ToString\<close> of every value, which template literals
  and \<open>Array.prototype.join\<close> apply.
\<close>

subsection \<open>Rounding to a double\<close>

text \<open>\<open>nat_bits n\<close> is the number of binary digits of \<open>n\<close>; \<open>floor_log2\<close> and
  \<open>floor_log10\<close> give the exponent of the leading digit of a positive rational.\<close>
fun nat_bits :: "nat \<Rightarrow> nat" where
  "nat_bits n = (if n = 0 then 0 else Suc (nat_bits (n div 2)))"

declare nat_bits.simps [simp del]

definition floor_log2 :: "rat \<Rightarrow> int" where
  "floor_log2 x =
     (let (p, q) = quotient_of x; e = int (nat_bits (nat p)) - int (nat_bits (nat q))
      in if 2 powi e \<le> x then e else e - 1)"

definition floor_log10 :: "rat \<Rightarrow> int" where
  "floor_log10 x =
     (let (p, q) = quotient_of x; e = int (length (decimal (nat p))) - int (length (decimal (nat q)))
      in if 10 powi e \<le> x then e else e - 1)"

definition round_half_even :: "rat \<Rightarrow> int" where
  "round_half_even m =
     (let f = \<lfloor>m\<rfloor>; d = m - of_int f
      in if d < 1/2 then f else if 1/2 < d then f + 1 else if even f then f else f + 1)"

definition round_double :: "rat \<Rightarrow> rat" where
  "round_double x =
     (if x = 0 then 0 else
      let a = \<bar>x\<bar>; q = max (floor_log2 a - 52) (-1074);
          r = of_int (round_half_even (a * 2 powi (- q))) * 2 powi q
      in if x < 0 then - r else r)"

text \<open>Mathematical value of the decimal \<open>s \<times> 10^(n - k)\<close> of \<open>k\<close> digits.\<close>

definition dec_value :: "nat \<Rightarrow> nat \<Rightarrow> int \<Rightarrow> rat" where
  "dec_value s k n = of_nat s * 10 powi (n - int k)"

subsection \<open>\<open>Number::toString\<close>\<close>

text \<open>For \<open>k\<close> significant digits, the two \<open>k\<close>-digit decimals next to \<open>x\<close> (below or
  at it, and above it); every \<open>k\<close>-digit decimal that rounds to \<open>x\<close> lies between one of
  them and \<open>x\<close>, so these two are the ones to try.\<close>

definition dec_candidates :: "rat \<Rightarrow> nat \<Rightarrow> (nat \<times> int) \<times> (nat \<times> int)" where
  "dec_candidates x k =
     (let n = floor_log10 x + 1; s = nat \<lfloor>x * 10 powi (int k - n)\<rfloor>
      in ((s, n), if Suc s = 10 ^ k then (10 ^ (k - 1), n + 1) else (Suc s, n)))"

text \<open>The choice of ECMA-262 among the \<open>k\<close>-digit decimals that round to \<open>x\<close>: the
  closest to \<open>x\<close>, and the even one on a tie.\<close>

definition pick_digits :: "rat \<Rightarrow> nat \<Rightarrow> (nat \<times> int) option" where
  "pick_digits x k =
     (let ((s1, n1), (s2, n2)) = dec_candidates x k;
          v1 = dec_value s1 k n1; v2 = dec_value s2 k n2;
          ok1 = (round_double v1 = x); ok2 = (round_double v2 = x)
      in if ok1 \<and> ok2 then
           Some (if x - v1 < v2 - x then (s1, n1) else if v2 - x < x - v1 then (s2, n2)
                 else if even s1 then (s1, n1) else (s2, n2))
         else if ok1 then Some (s1, n1) else if ok2 then Some (s2, n2) else None)"

text \<open>The least \<open>k\<close> from 1 to 17 that has such a decimal; 17 digits suffice for every
  double, so the last equation is reached only for rationals that are not doubles.\<close>

fun first_digits :: "rat \<Rightarrow> nat list \<Rightarrow> nat \<times> nat \<times> int" where
  "first_digits x [] = (case fst (dec_candidates x 17) of (s, n) \<Rightarrow> (s, 17, n))"
| "first_digits x (k # ks) =
     (case pick_digits x k of Some (s, n) \<Rightarrow> (s, k, n) | None \<Rightarrow> first_digits x ks)"

definition shortest_decimal :: "rat \<Rightarrow> nat \<times> nat \<times> int" where
  "shortest_decimal x = first_digits x [1..<18]"

text \<open>The layout of steps 6 to 10 of \<open>Number::toString\<close> for the digits \<open>s\<close> (\<open>k\<close> of
  them) and the decimal exponent \<open>n\<close>.\<close>

definition format_decimal :: "nat \<Rightarrow> nat \<Rightarrow> int \<Rightarrow> jstr" where
  "format_decimal s k n =
     (let ds = decimal s in
      if int k \<le> n \<and> n \<le> 21 then ds @ replicate (nat n - k) (digit 0)
      else if 0 < n \<and> n \<le> 21 then take (nat n) ds @ js ''.'' @ drop (nat n) ds
      else if -6 < n \<and> n \<le> 0 then js ''0.'' @ replicate (nat (- n)) (digit 0) @ ds
      else let e = n - 1;
               es = (if e < 0 then js ''-'' else js ''+'') @ decimal (nat \<bar>e\<bar>)
           in if k = 1 then ds @ js ''e'' @ es
              else take 1 ds @ js ''.'' @ drop 1 ds @ js ''e'' @ es)"

definition number_to_string :: "rat \<Rightarrow> jstr" where
  "number_to_string x =
     (if x = 0 then js ''0'' else
      case shortest_decimal \<bar>x\<bar> of (s, k, n) \<Rightarrow>
        (if x < 0 then js ''-'' else []) @ format_decimal s k n)"

subsection \<open>\<open>toFixed\<close> and \<open>ToString\<close>\<close>

text \<open>\<open>x.toFixed(f)\<close>: the integer \<open>n\<close> nearest to \<open>x \<cdot> 10^f\<close> (the larger on a tie),
  its digits padded to \<open>f + 1\<close> and a point inserted before the last \<open>f\<close>; from
  \<open>10^21\<close> on, \<open>ToString\<close>.\<close>

definition to_fixed :: "nat \<Rightarrow> rat \<Rightarrow> jstr" where
  "to_fixed f x =
     (let sg = (if x < 0 then js ''-'' else []); a = \<bar>x\<bar> in
      if 10 ^ 21 \<le> a then sg @ number_to_string a
      else let m = decimal (nat \<lfloor>a * 10 ^ f + 1/2\<rfloor>);
               m1 = (if length m \<le> f then replicate (f + 1 - length m) (digit 0) @ m else m);
               k = length m1
           in sg @ (if f = 0 then m else take (k - f) m1 @ js ''.'' @ drop (k - f) m1))"

text \<open>\<open>ToString\<close> of a value. A string, number, boolean, \<open>null\<close> or \<open>undefined\<close> prints
  as itself. An array prints as \<open>join(",")\<close> of its elements, \<open>null\<close> and \<open>undefined\<close>
  as the empty string, the others by \<open>ToString\<close> in order. An object goes through
  \<open>OrdinaryToPrimitive\<close>: its \<open>toString\<close> is called when it is a function. A parsed JSON
  object inherits \<open>Object.prototype.toString\<close> and prints \<open>[object Object]\<close>, unless it has
  an own member named \<open>toString\<close>. That member is data, not a function, and the inherited
  \<open>valueOf\<close> returns the object itself, so the conversion throws a \<open>TypeError\<close>.\<close>

primrec js_to_string :: "jsval \<Rightarrow> jstr res"
  and elems_to_string :: "jsval list \<Rightarrow> jstr list res" where
  "js_to_string JUndef = Inr (js ''undefined'')"
| "js_to_string JNull = Inr (js ''null'')"
| "js_to_string (JBool b) = Inr (if b then js ''true'' else js ''false'')"
| "js_to_string (JNum x) = Inr (number_to_string x)"
| "js_to_string (JStr s) = Inr s"
| "js_to_string (JArr xs) = ebind (elems_to_string xs) (\<lambda>ss. Inr (join (js '','') ss))"
| "js_to_string (JObj kvs) =
     (if js ''toString'' \<in> set (map fst kvs) then Inl NoPrimitive else Inr (js ''[object Object]''))"
| "elems_to_string [] = Inr []"
| "elems_to_string (v # vs) =
     ebind (if nullish v then Inr [] else js_to_string v) (\<lambda>s.
     ebind (elems_to_string vs) (\<lambda>ss. Inr (s # ss)))"

subsection \<open>Shape of the printed numbers\<close>

lemma read_decimal_zeros: "read_decimal (replicate k (digit 0) @ s) = read_decimal s"
proof -
  have "foldl (\<lambda>a c. 10 * a + (unat c - 48)) 0 (replicate k (digit 0)) = 0"
    by (induction k) (simp_all add: unat_digit)
  then show ?thesis by (simp add: read_decimal_def)
qed

lemma format_decimal_ne: "format_decimal s k n \<noteq> []"
  by (simp add: format_decimal_def Let_def js_def)

lemma number_to_string_ne: "number_to_string x \<noteq> []"
  by (simp add: number_to_string_def js_def format_decimal_ne split: prod.splits)

lemma to_fixed_ne: "to_fixed f x \<noteq> []"
  by (simp add: to_fixed_def Let_def js_def number_to_string_ne)

lemma to_fixed_digits:
  assumes "0 \<le> x" "x < 10 ^ 21" "0 < f"
  shows "\<exists>ip fp. to_fixed f x = ip @ js ''.'' @ fp \<and> ip \<noteq> [] \<and> length fp = f
                 \<and> read_decimal (ip @ fp) = nat \<lfloor>x * 10 ^ f + 1/2\<rfloor>"
proof -
  define m where "m = decimal (nat \<lfloor>x * 10 ^ f + 1/2\<rfloor>)"
  define m1 where "m1 = (if length m \<le> f then replicate (f + 1 - length m) (digit 0) @ m else m)"
  have len: "f < length m1" by (simp add: m1_def)
  have val: "read_decimal m1 = nat \<lfloor>x * 10 ^ f + 1/2\<rfloor>"
    by (simp add: m1_def m_def read_decimal_zeros read_decimal_decimal)
  have tf: "to_fixed f x = take (length m1 - f) m1 @ js ''.'' @ drop (length m1 - f) m1"
    using assms by (simp add: to_fixed_def Let_def m_def m1_def)
  show ?thesis
  proof (intro exI conjI)
    show "to_fixed f x = take (length m1 - f) m1 @ js ''.'' @ drop (length m1 - f) m1" by (fact tf)
    show "take (length m1 - f) m1 \<noteq> []" using len by (cases m1) simp_all
    show "length (drop (length m1 - f) m1) = f" using len by simp
    show "read_decimal (take (length m1 - f) m1 @ drop (length m1 - f) m1) = nat \<lfloor>x * 10 ^ f + 1/2\<rfloor>"
      by (simp add: val)
  qed
qed

subsection \<open>Integers print as their decimal digits\<close>

text \<open>For a natural number below \<open>10^15\<close> (so exactly a double, and every decimal of
  at most 16 digits near it also), the shortest-decimal search of \<open>Number::toString\<close>
  finds its own digits without trailing zeros, and the layout appends those zeros again:
  \<open>number_to_string (of_nat n) = decimal n\<close>. The proof follows the search:
  \<open>pick_digits\<close> succeeds at \<open>k\<close> digits exactly when \<open>10^(N-k)\<close> divides \<open>n\<close>
  (\<open>N\<close> the number of digits of \<open>n\<close>), since the upper candidate is an integer
  above \<open>n\<close> and every integer up to \<open>2^53\<close> rounds to itself.\<close>

lemma decimal_small: "n < 10 \<Longrightarrow> decimal n = [digit n]"
  by (simp add: decimal.simps [of n])

lemma decimal_step: "10 \<le> n \<Longrightarrow> decimal n = decimal (n div 10) @ [digit (n mod 10)]"
  by (simp add: decimal.simps [of n])

lemma decimal_length_bounds:
  "n < 10 ^ length (decimal n) \<and> (0 < n \<longrightarrow> 10 ^ (length (decimal n) - 1) \<le> n)"
proof (induction n rule: decimal.induct)
  case (1 n)
  show ?case
  proof (cases "n < 10")
    case True
    then show ?thesis by (simp add: decimal_small)
  next
    case False
    with "1.IH" have ih: "n div 10 < 10 ^ length (decimal (n div 10))"
        "10 ^ (length (decimal (n div 10)) - 1) \<le> n div 10" by auto
    have ne: "decimal (n div 10) \<noteq> []" by simp
    then obtain l where l: "length (decimal (n div 10)) = Suc l" by (cases "decimal (n div 10)") auto
    from ih l have "n < 10 ^ Suc (Suc l)" and "10 ^ Suc l \<le> n" by (auto simp: power_Suc)
      (* arithmetic on div *)
    with False l show ?thesis by (simp add: decimal_step)
  qed
qed

lemma decimal_length_le15: "0 < n \<Longrightarrow> n < 10 ^ 15 \<Longrightarrow> length (decimal n) \<le> 15"
proof -
  assume n: "0 < n" "n < 10 ^ 15"
  from decimal_length_bounds [of n] n(1) have "10 ^ (length (decimal n) - 1) \<le> n" by simp
  with n(2) have "(10::nat) ^ (length (decimal n) - 1) < 10 ^ 15" by simp
  then show ?thesis using power_strict_increasing_iff [of "10::nat" _ 15] by simp
qed

lemma decimal_mult_pow10:
  "0 < m \<Longrightarrow> decimal (m * 10 ^ z) = decimal m @ replicate z (digit 0)"
proof (induction z)
  case 0
  then show ?case by simp
next
  case (Suc z)
  have e: "m * 10 ^ Suc z = m * 10 ^ z * 10" by simp
  have "10 \<le> m * 10 ^ z * 10" using Suc.prems by simp
  then have "decimal (m * 10 ^ z * 10) = decimal (m * 10 ^ z) @ [digit 0]"
    by (simp only: decimal_step [of "m * 10 ^ z * 10"]) simp
  with e have "decimal (m * 10 ^ Suc z) = decimal (m * 10 ^ z) @ [digit 0]" by (simp only:)
  with Suc show ?case by (simp add: replicate_append_same)
qed

lemma nat_bits_bounds: "0 < n \<Longrightarrow> 2 ^ (nat_bits n - 1) \<le> n \<and> n < 2 ^ nat_bits n"
proof (induction n rule: nat_bits.induct)
  case (1 n)
  show ?case
  proof (cases "n = 1")
    case True
    then show ?thesis by (simp add: nat_bits.simps)
  next
    case False
    with "1.prems" have "0 < n div 2" by simp
    with "1.IH" "1.prems" have ih: "2 ^ (nat_bits (n div 2) - 1) \<le> n div 2"
      "n div 2 < 2 ^ nat_bits (n div 2)" by auto
    have nb: "nat_bits n = Suc (nat_bits (n div 2))"
      using "1.prems" by (simp add: nat_bits.simps [of n])
    have "nat_bits (n div 2) \<noteq> 0"
      using \<open>0 < n div 2\<close> by (simp add: nat_bits.simps [of "n div 2"])
    with ih nb show ?thesis
      by (cases "nat_bits (n div 2)") (auto simp: power_Suc)
  qed
qed


lemma quotient_of_nat: "quotient_of (of_nat n :: rat) = (int n, 1)"
  using quotient_of_int [of "int n"] by simp

lemma nat_bits_one: "nat_bits (Suc 0) = 1"
  by (simp add: nat_bits.simps)

lemma floor_log2_nat:
  assumes "0 < v"
  shows "floor_log2 (of_nat v) = int (nat_bits v) - 1"
proof -
  from nat_bits_bounds [OF assms] have b1: "2 ^ (nat_bits v - 1) \<le> v" by simp
  have b2: "0 < nat_bits v" using assms by (simp add: nat_bits.simps [of v])
  then have e: "int (nat_bits v) - int (nat_bits (Suc 0)) = int (nat_bits v - 1)"
    by (simp add: nat_bits_one of_nat_diff)
  have "(2::rat) powi (int (nat_bits v - 1)) \<le> of_nat v"
    using b1 by (simp del: of_nat_power add: of_nat_power [symmetric] of_nat_le_iff)
  then have "floor_log2 (of_nat v) = int (nat_bits v - 1)"
    by (simp add: floor_log2_def quotient_of_nat Let_def e)
  with b2 show ?thesis by (simp add: of_nat_diff)
qed

lemma pow2_shift_int:
  assumes "b \<le> 53"
  shows "of_nat v * (2::rat) powi (- (int b - 53)) = of_nat (v * 2 ^ (53 - b))"
proof -
  have e: "- (int b - 53) = int (53 - b)" using assms by linarith
  have "(2::rat) powi (- (int b - 53)) = 2 ^ (53 - b)"
    by (simp only: e power_int_of_nat)
  then show ?thesis
    by (simp only: of_nat_mult of_nat_power of_nat_numeral)
qed

lemma floor_log10_nat:
  assumes "0 < n"
  shows "floor_log10 (of_nat n) = int (length (decimal n)) - 1"
proof -
  let ?L = "length (decimal n)"
  from decimal_length_bounds [of n] assms have b: "10 ^ (?L - 1) \<le> n" by simp
  have l: "0 < ?L" by simp
  have d1: "length (decimal (Suc 0)) = 1" by (simp add: decimal_small)
  have e: "int ?L - 1 = int (?L - 1)" using l by (cases ?L) simp_all
  have "(10::rat) powi (int (?L - 1)) \<le> of_nat n"
    using b by (simp del: of_nat_power add: of_nat_power [symmetric] of_nat_le_iff)
  then have "(10::rat) powi (int ?L - 1) \<le> of_nat n" by (simp only: e)
  then show ?thesis by (simp add: floor_log10_def quotient_of_nat Let_def d1)
qed

lemma round_half_even_int [simp]: "round_half_even (of_int m) = m"
  by (simp add: round_half_even_def)

lemma round_half_even_nat [simp]: "round_half_even (of_nat k) = int k"
  using round_half_even_int [of "int k"] by simp

lemma round_double_nat:
  assumes "0 < v" and "v \<le> 2 ^ 53"
  shows "round_double (of_nat v) = of_nat v"
proof -
  let ?b = "nat_bits v"
  let ?q = "int ?b - 53"
  from nat_bits_bounds [OF assms(1)] have lo: "2 ^ (?b - 1) \<le> v" by simp
  have b1: "1 \<le> ?b" using assms(1) by (simp add: nat_bits.simps [of v])
  from lo assms(2) have "(2::nat) ^ (?b - 1) \<le> 2 ^ 53" by (rule order_trans)
  then have "?b - 1 \<le> 53"
    using power_increasing_iff [of "2::nat" "?b - 1" 53] by simp
  then have b54: "?b \<le> 54" by simp
  have q: "max (floor_log2 (of_nat v) - 52) (-1074) = ?q"
    using b1 by (simp add: floor_log2_nat assms(1))
  obtain k :: nat where k: "of_nat v * (2::rat) powi (- ?q) = of_nat k"
  proof (cases "?b \<le> 53")
    case True
    show ?thesis using pow2_shift_int [OF True] by (rule that)
  next
    case False
    with b54 have b: "?b = 54" by simp
    with lo assms(2) have v: "v = 2 * 2 ^ 52" by simp
    from b have e1: "- ?q = - 1" by simp
    have "of_nat v * (2::rat) powi (- ?q) = of_nat v / 2"
      by (simp only: e1 power_int_minus power_int_1_right divide_inverse)
    also have "\<dots> = of_nat (2 ^ 52)" using v by simp
    finally show ?thesis by (rule that)
  qed
  have r: "round_double (of_nat v) =
      of_int (round_half_even (of_nat v * 2 powi (- ?q))) * 2 powi ?q"
    using assms(1) by (simp add: round_double_def q Let_def)
  have "of_int (round_half_even (of_nat v * (2::rat) powi (- ?q))) * 2 powi ?q
        = of_nat k * (2::rat) powi ?q"
    by (simp only: k round_half_even_nat of_int_of_nat_eq)
  also have "\<dots> = of_nat v * ((2::rat) powi (- ?q) * 2 powi ?q)"
    by (simp only: k [symmetric] mult.assoc)
  also have "\<dots> = of_nat v"
  proof -
    have "(2::rat) powi (- ?q) * 2 powi ?q = 1"
      unfolding power_int_minus by (rule left_inverse) simp
    then show ?thesis by simp
  qed
  finally show ?thesis using r by simp
qed

lemma dec_value_nat:
  assumes "k \<le> N"
  shows "dec_value s k (int N) = of_nat (s * 10 ^ (N - k))"
proof -
  from assms have e: "int N - int k = int (N - k)" by simp
  have "dec_value s k (int N) = of_nat s * (10::rat) ^ (N - k)"
    by (simp only: dec_value_def e power_int_of_nat)
  then show ?thesis by (simp only: of_nat_mult of_nat_power of_nat_numeral)
qed

lemma dec_value_carry:
  assumes "1 \<le> k" and "k \<le> N"
  shows "dec_value (10 ^ (k - 1)) k (int N + 1) = of_nat (10 ^ k * 10 ^ (N - k))"
proof -
  from assms have e: "int N + 1 - int k = int (Suc (N - k))" by simp
  have "dec_value (10 ^ (k - 1)) k (int N + 1) = of_nat (10 ^ (k - 1)) * (10::rat) ^ Suc (N - k)"
    by (simp only: dec_value_def e power_int_of_nat)
  also have "\<dots> = of_nat (10 ^ (k - 1) * 10 ^ Suc (N - k))"
    by (simp only: of_nat_mult of_nat_power of_nat_numeral)
  also have "10 ^ (k - 1) * 10 ^ Suc (N - k) = (10::nat) ^ k * 10 ^ (N - k)"
  proof -
    obtain j where j: "k = Suc j" using assms(1) by (cases k) simp_all
    show ?thesis by (simp only: j diff_Suc_1 power_Suc mult_ac)
  qed
  finally show ?thesis .
qed

lemma floor_nat_div_pow10:
  assumes "k \<le> N"
  shows "nat \<lfloor>(of_nat n :: rat) * 10 powi (int k - int N)\<rfloor> = n div 10 ^ (N - k)"
proof -
  from assms have e: "int k - int N = - int (N - k)" by simp
  have "(of_nat n :: rat) * 10 powi (int k - int N) = of_nat n / of_nat (10 ^ (N - k))"
    by (simp add: e power_int_minus divide_inverse)
  then show ?thesis by (simp only: floor_divide_of_nat_eq nat_int)
qed

lemma pick_digits_upper_fails:
  assumes "dec_candidates x k = ((s1, n1), (s2, n2))"
    and "round_double (dec_value s2 k n2) \<noteq> x"
  shows "pick_digits x k = (if round_double (dec_value s1 k n1) = x then Some (s1, n1) else None)"
  using assms by (simp add: pick_digits_def Let_def)

lemma pick_digits_nat:
  assumes n: "0 < n" "n < 10 ^ 15" and k: "1 \<le> k" "k \<le> length (decimal n)"
  shows "pick_digits (of_nat n) k =
     (if 10 ^ (length (decimal n) - k) dvd n
      then Some (n div 10 ^ (length (decimal n) - k), int (length (decimal n))) else None)"
proof -
  let ?N = "length (decimal n)"
  let ?d = "?N - k"
  let ?s = "n div 10 ^ ?d"
  from decimal_length_bounds [of n] n(1) have bhi: "n < 10 ^ ?N" and blo: "10 ^ (?N - 1) \<le> n"
    by simp_all
  have N15: "?N \<le> 15" by (rule decimal_length_le15 [OF n])
  have "(10::nat) ^ ?d \<le> 10 ^ (?N - 1)" using k by (intro power_increasing) simp_all
  from this blo have "10 ^ ?d \<le> n" by (rule order_trans)
  then have s_pos: "0 < ?s" by (simp add: div_greater_zero_iff)
  have pN: "(10::nat) ^ ?N = 10 ^ k * 10 ^ ?d"
    using k(2) by (simp add: power_add [symmetric])
  from bhi pN have s_lt: "?s < 10 ^ k" by (simp add: div_less_iff_less_mult)
  have lo: "?s * 10 ^ ?d \<le> n" by (rule div_times_less_eq_dividend)
  have hi: "n < Suc ?s * 10 ^ ?d"
  proof -
    have "n mod 10 ^ ?d < 10 ^ ?d" by simp
    moreover have "?s * 10 ^ ?d + n mod 10 ^ ?d = n" by (rule div_mult_mod_eq)
    ultimately show ?thesis unfolding mult_Suc by linarith
  qed
  have top: "Suc ?s * 10 ^ ?d \<le> 10 ^ ?N"
  proof -
    from s_lt have "Suc ?s \<le> 10 ^ k" by simp
    then have "Suc ?s * 10 ^ ?d \<le> 10 ^ k * 10 ^ ?d" by (rule mult_le_mono1)
    with pN show ?thesis by simp
  qed
  have "(10::nat) ^ ?N \<le> 10 ^ 15" using N15 by (intro power_increasing) simp_all
  then have p53: "(10::nat) ^ ?N \<le> 2 ^ 53" by simp
  have r1: "round_double (of_nat (?s * 10 ^ ?d)) = of_nat (?s * 10 ^ ?d)"
  proof (rule round_double_nat)
    show "0 < ?s * 10 ^ ?d" using s_pos by simp
    show "?s * 10 ^ ?d \<le> 2 ^ 53" using lo bhi p53 by linarith
  qed
  have r2: "round_double (of_nat (Suc ?s * 10 ^ ?d)) = of_nat (Suc ?s * 10 ^ ?d)"
    using top p53 by (intro round_double_nat) simp_all
  have n0: "floor_log10 (of_nat n) + 1 = int ?N" by (simp add: floor_log10_nat n(1))
  have dc: "dec_candidates (of_nat n) k =
      ((?s, int ?N), if Suc ?s = 10 ^ k then (10 ^ (k - 1), int ?N + 1) else (Suc ?s, int ?N))"
    using k(2) by (simp add: dec_candidates_def n0 floor_nat_div_pow10 Let_def)
  have v1: "dec_value ?s k (int ?N) = of_nat (?s * 10 ^ ?d)"
    using k(2) by (rule dec_value_nat)
  obtain s2 n2 where dc2: "dec_candidates (of_nat n) k = ((?s, int ?N), (s2, n2))"
      and v2: "dec_value s2 k n2 = of_nat (Suc ?s * 10 ^ ?d)"
  proof (cases "Suc ?s = 10 ^ k")
    case True
    have "dec_candidates (of_nat n) k = ((?s, int ?N), (10 ^ (k - 1), int ?N + 1))"
      using dc by (simp only: if_P [OF True])
    moreover have "dec_value (10 ^ (k - 1)) k (int ?N + 1) = of_nat (Suc ?s * 10 ^ ?d)"
      by (simp only: dec_value_carry [OF k] True)
    ultimately show ?thesis by (rule that)
  next
    case False
    have "dec_candidates (of_nat n) k = ((?s, int ?N), (Suc ?s, int ?N))"
      using dc by (simp only: if_not_P [OF False])
    moreover have "dec_value (Suc ?s) k (int ?N) = of_nat (Suc ?s * 10 ^ ?d)"
      by (rule dec_value_nat [OF k(2)])
    ultimately show ?thesis by (rule that)
  qed
  have ok1: "(of_nat (?s * 10 ^ ?d) = (of_nat n :: rat)) \<longleftrightarrow> 10 ^ ?d dvd n"
    by (simp only: of_nat_eq_iff) (metis dvd_div_mult_self dvd_triv_right)
  have ok2: "(of_nat (Suc ?s * 10 ^ ?d) = (of_nat n :: rat)) \<longleftrightarrow> False"
  proof -
    have "Suc ?s * 10 ^ ?d \<noteq> n" using hi by simp
    then show ?thesis by (simp only: of_nat_eq_iff simp_thms)
  qed
  have "pick_digits (of_nat n) k =
      (if round_double (dec_value ?s k (int ?N)) = of_nat n then Some (?s, int ?N) else None)"
    by (rule pick_digits_upper_fails [OF dc2]) (simp only: v2 r2 ok2 not_False_eq_True)
  then show ?thesis by (simp only: v1 r1 ok1)
qed

lemma first_digits_nat:
  assumes n: "0 < n" "n < 10 ^ 15" and a: "1 \<le> a" "a \<le> length (decimal n)"
  shows "\<exists>k. first_digits (of_nat n) [a..<18] =
               (n div 10 ^ (length (decimal n) - k), k, int (length (decimal n)))
             \<and> a \<le> k \<and> k \<le> length (decimal n) \<and> 10 ^ (length (decimal n) - k) dvd n"
  using a
proof (induction "length (decimal n) - a" arbitrary: a)
  case 0
  then have aN: "a = length (decimal n)" by simp
  have N15: "length (decimal n) \<le> 15" by (rule decimal_length_le15 [OF n])
  then have "[a..<18] = a # [Suc a..<18]" using aN by (simp add: upt_rec)
  moreover have "pick_digits (of_nat n) a = Some (n div 10 ^ 0, int (length (decimal n)))"
    using pick_digits_nat [OF n "0.prems"] aN by simp
  ultimately show ?case using aN by auto
next
  case (Suc d)
  have N15: "length (decimal n) \<le> 15" by (rule decimal_length_le15 [OF n])
  then have split: "[a..<18] = a # [Suc a..<18]" using Suc.prems by (simp add: upt_rec)
  show ?case
  proof (cases "10 ^ (length (decimal n) - a) dvd n")
    case True
    then have "pick_digits (of_nat n) a =
        Some (n div 10 ^ (length (decimal n) - a), int (length (decimal n)))"
      using pick_digits_nat [OF n Suc.prems] by simp
    then show ?thesis using split Suc.prems True by auto
  next
    case False
    then have p: "pick_digits (of_nat n) a = None"
      using pick_digits_nat [OF n Suc.prems] by simp
    have "d = length (decimal n) - Suc a" and "1 \<le> Suc a" and "Suc a \<le> length (decimal n)"
      using Suc.hyps(2) Suc.prems by simp_all
    from Suc.hyps(1) [OF this] show ?thesis using split p by auto
  qed
qed
lemma number_to_string_nat:
  assumes "n < 10 ^ 15"
  shows "number_to_string (of_nat n) = decimal n"
proof (cases "n = 0")
  case True
  then show ?thesis by (simp add: number_to_string_def decimal.simps js_lit)
next
  case False
  then have n: "0 < n" by simp
  let ?N = "length (decimal n)"
  have N1: "1 \<le> ?N" by (cases "decimal n") simp_all
  have N15: "?N \<le> 15" by (rule decimal_length_le15 [OF n assms])
  obtain k where fd: "first_digits (of_nat n) [1..<18] = (n div 10 ^ (?N - k), k, int ?N)"
      and k: "1 \<le> k" "k \<le> ?N" and dv: "10 ^ (?N - k) dvd n"
    using first_digits_nat [OF n assms order_refl N1] by auto
  let ?s = "n div 10 ^ (?N - k)"
  have ns: "n = ?s * 10 ^ (?N - k)" using dv by simp
  have s0: "0 < ?s" using n ns by (cases ?s) simp_all
  have sd: "shortest_decimal (of_nat n) = (?s, k, int ?N)"
    unfolding shortest_decimal_def by (rule fd)
  have "number_to_string (of_nat n) = format_decimal ?s k (int ?N)"
    using n by (simp add: number_to_string_def sd)
  also have "\<dots> = decimal ?s @ replicate (?N - k) (digit 0)"
    using k N15 by (simp add: format_decimal_def Let_def)
  also have "\<dots> = decimal n"
    using decimal_mult_pow10 [OF s0, of "?N - k"] ns by simp
  finally show ?thesis .
qed
subsection \<open>\<open>ToString\<close>\<close>

text \<open>The only way \<open>ToString\<close> of a JSON value fails is an object, at any depth of
  arrays, with an own \<open>toString\<close> member.\<close>

lemma elems_to_string_Inl:
  "elems_to_string xs = Inl e \<Longrightarrow> \<exists>x\<in>set xs. \<not> nullish x \<and> js_to_string x = Inl e"
  by (induction xs) (auto elim!: ebind_InlE split: if_splits)

lemma js_to_string_Inl: "js_to_string v = Inl e \<Longrightarrow> e = NoPrimitive"
  by (induction v arbitrary: e) (auto elim!: ebind_InlE dest!: elems_to_string_Inl split: if_splits)

lemma js_to_string_type_error [type_errors]: "js_to_string v = Inl e \<Longrightarrow> type_error e"
  by (drule js_to_string_Inl) simp

lemma elems_to_string_type_error [type_errors]: "elems_to_string vs = Inl e \<Longrightarrow> type_error e"
  by (auto dest!: elems_to_string_Inl dest: js_to_string_type_error)

lemma elems_to_string_strs [simp]: "elems_to_string (map JStr ss) = Inr ss"
  by (induction ss) (simp_all add: nullish_def)

lemma js_to_string_JStr_iff: "is_str v \<Longrightarrow> js_to_string v = Inr (str_of v)"
  by (cases v) (simp_all add: is_str_def)

subsection \<open>Evaluation of concrete numbers\<close>

text \<open>Floors of literal fractions, which arise when \<open>toFixed\<close> rounds a concrete double.\<close>

lemma floor_frac: "\<lfloor>(numeral a :: rat) / numeral b\<rfloor> = numeral a div numeral b"
  by (metis floor_divide_of_int_eq of_int_numeral)

text \<open>Integer literals print through \<open>number_to_string_nat\<close>, without the search.\<close>

lemma number_to_string_numeral:
  "numeral m < (10::nat) ^ 15 \<Longrightarrow> number_to_string (numeral m) = decimal (numeral m)"
  using number_to_string_nat [of "numeral m"] by simp

lemma number_to_string_one: "number_to_string 1 = decimal 1"
  using number_to_string_nat [of 1] by simp

lemma number_to_string_zero: "number_to_string 0 = decimal 0"
  using number_to_string_nat [of 0] by simp

text \<open>The unfoldings that evaluate the formatting of a concrete number by \<open>simp\<close>;
  \<open>number_to_string_def\<close> is added for numbers that are not integers.\<close>

lemmas number_eval = floor_frac number_to_string_numeral number_to_string_one number_to_string_zero shortest_decimal_def pick_digits_def
  dec_candidates_def floor_log10_def round_double_def floor_log2_def dec_value_def
  round_half_even_def decimal.simps nat_bits.simps upt_rec format_decimal_def to_fixed_def

end
