(* ===== verification/Normalizer.thy ===== *)
theory Normalizer
  imports JS_Number
begin

text \<open>
  The response normalizer: what \<open>queryRAG\<close> and \<open>searchDocuments\<close> of
  \<open>src/src/index.ts\<close> do with the payload \<open>data\<close> that the upstream call returned,
  up to the result object they render. The per-node expressions that the code repeats in
  four \<open>map\<close> callbacks (file name with its fallback, score with its fallback, the
  truncated text) are one definition each here. Every property read and method call that
  can throw on an unexpected payload is a branch of the \<open>res\<close> result.
\<close>

subsection \<open>Result records\<close>

record source =
  src_id :: nat
  src_filename :: jsval
  src_score :: jsval
  src_preview :: jstr

record query_result =
  qr_answer :: jsval
  qr_sources :: "source list"
  qr_total_sources :: nat
  qr_query :: jsval

record document =
  doc_id :: nat
  doc_filename :: jsval
  doc_score :: jsval
  doc_content :: jstr
  doc_metadata :: jsval

record search_result =
  sr_query :: jsval
  sr_documents :: "document list"
  sr_total_found :: nat

subsection \<open>Per-node fields\<close>

definition nl :: jstr where
  "nl = [0x0A]"

text \<open>\<open>node.metadata?.file_name || node.metadata?.filename || `Document ${index + 1}`\<close>\<close>

definition fallback_name :: "nat \<Rightarrow> jsval \<Rightarrow> jsval" where
  "fallback_name i md =
     js_or (opt_get md K_file_name)
       (js_or (opt_get md K_filename)
         (JStr (js ''Document '' @ number_to_string (of_nat (i + 1)))))"

definition node_filename :: "nat \<Rightarrow> jsval \<Rightarrow> jsval res" where
  "node_filename i node = ebind (get_prop node K_metadata) (\<lambda>md. Inr (fallback_name i md))"

text \<open>\<open>node.score || 0\<close>\<close>

definition node_score :: "jsval \<Rightarrow> jsval res" where
  "node_score node = ebind (get_prop node K_score) (\<lambda>s. Inr (js_or s (JNum 0)))"

text \<open>\<open>node.text || node.content || ""\<close>, reading \<open>content\<close> only when \<open>text\<close> is falsy.\<close>

definition node_text :: "jsval \<Rightarrow> jsval res" where
  "node_text node =
     ebind (get_prop node K_text) (\<lambda>t.
       if truthy t then Inr t
       else ebind (get_prop node K_content) (\<lambda>c. Inr (js_or c (JStr []))))"

text \<open>\<open>v.substring(0, n)\<close>: a \<open>TypeError\<close> unless \<open>v\<close> is a string.\<close>

definition substring0 :: "jsval \<Rightarrow> nat \<Rightarrow> jstr res" where
  "substring0 v n = (case v of JStr s \<Rightarrow> Inr (take n s) | _ \<Rightarrow> no_method v M_substring)"

text \<open>\<open>(node.text || node.content || "").substring(0, n) + "..."\<close>\<close>

definition node_preview :: "nat \<Rightarrow> jsval \<Rightarrow> jstr res" where
  "node_preview n node =
     ebind (node_text node) (\<lambda>t. ebind (substring0 t n) (\<lambda>p. Inr (p @ js ''...'')))"

text \<open>The \<open>map\<close> callback building a source of \<open>queryRAG\<close> (both branches).\<close>

definition make_source :: "nat \<Rightarrow> jsval \<Rightarrow> source res" where
  "make_source i node =
     ebind (node_filename i node) (\<lambda>f.
     ebind (node_score node) (\<lambda>sc.
     ebind (node_preview 150 node) (\<lambda>p.
       Inr \<lparr>src_id = i + 1, src_filename = f, src_score = sc, src_preview = p\<rparr>)))"

text \<open>The \<open>map\<close> callback building a document of \<open>searchDocuments\<close> (both branches).\<close>

definition make_document :: "nat \<Rightarrow> jsval \<Rightarrow> document res" where
  "make_document i node =
     ebind (node_filename i node) (\<lambda>f.
     ebind (node_score node) (\<lambda>sc.
     ebind (node_preview 300 node) (\<lambda>c.
     ebind (get_prop node K_metadata) (\<lambda>md.
       Inr \<lparr>doc_id = i + 1, doc_filename = f, doc_score = sc, doc_content = c,
            doc_metadata = js_or md (JObj [])\<rparr>))))"

subsection \<open>Array helpers\<close>

text \<open>\<open>v.map((x, index) => f)\<close> on a value of unknown type.\<close>

definition js_map_idx :: "(nat \<Rightarrow> jsval \<Rightarrow> 'b res) \<Rightarrow> jsval \<Rightarrow> 'b list res" where
  "js_map_idx f v = (case v of JArr xs \<Rightarrow> map_idx_res f xs | _ \<Rightarrow> no_method v M_map)"

text \<open>\<open>retrieval_nodes.map((item) => item.node).filter((node) => node)\<close>\<close>

definition extract_nodes :: "jsval list \<Rightarrow> jsval list res" where
  "extract_nodes items =
     ebind (map_res (\<lambda>item. get_prop item K_node) items) (\<lambda>ns. Inr (filter truthy ns))"

text \<open>\<open>(text) => text.trim()\<close> as a filter predicate.\<close>

definition trim_truthy :: "jsval \<Rightarrow> bool res" where
  "trim_truthy v = (case v of JStr s \<Rightarrow> Inr (truthy (JStr (js_trim s))) | _ \<Rightarrow> no_method v M_trim)"

text \<open>\<open>nodes.map(node => node.text || node.content || "").filter(text => text.trim())
  .slice(0, 3)\<close>\<close>

definition contexts :: "jsval list \<Rightarrow> jsval list res" where
  "contexts nodes =
     ebind (map_res node_text nodes) (\<lambda>ts.
     ebind (filter_res trim_truthy ts) (\<lambda>cs. Inr (take 3 cs)))"

text \<open>\<open>`Based on the found documents:\n\n${contexts.join('\n\n---\n\n')}`\<close>: \<open>join\<close>
  converts each element with \<open>ToString\<close>.\<close>

definition answer_text :: "jsval list \<Rightarrow> jstr res" where
  "answer_text cs =
     ebind (elems_to_string cs) (\<lambda>ss.
       Inr (js ''Based on the found documents:'' @ nl @ nl @ join (nl @ nl @ js ''---'' @ nl @ nl) ss))"

subsection \<open>The two normalizers\<close>

text \<open>Lines 227--269 of \<open>queryRAG\<close>: new format when \<open>data.retrieval_nodes\<close> is an
  array, otherwise the legacy fields.\<close>

definition new_format_answer :: "jsval list \<Rightarrow> jsval res" where
  "new_format_answer nodes =
     (if nodes \<noteq> [] then
        ebind (contexts nodes) (\<lambda>cs.
          if cs \<noteq> [] then ebind (answer_text cs) (\<lambda>a. Inr (JStr a)) else Inr (JStr []))
      else Inr (JStr []))"

definition mk_query_result :: "jsval \<Rightarrow> source list \<Rightarrow> jsval \<Rightarrow> query_result" where
  "mk_query_result a srcs q =
     \<lparr>qr_answer = a, qr_sources = srcs, qr_total_sources = length srcs, qr_query = q\<rparr>"

text \<open>Line 255: \<open>data.answer || data.response || "No answer received."\<close>\<close>

definition legacy_answer :: "jsval \<Rightarrow> jsval res" where
  "legacy_answer data =
     ebind (get_prop data K_answer) (\<lambda>a0.
       if truthy a0 then Inr a0
       else ebind (get_prop data K_response) (\<lambda>r. Inr (js_or r (JStr (js ''No answer received.'')))))"

text \<open>Line 256: \<open>data.source_nodes || data.sources || []\<close>\<close>

definition legacy_list :: "jsval \<Rightarrow> jsval res" where
  "legacy_list data =
     ebind (get_prop data K_source_nodes) (\<lambda>sn.
       if truthy sn then Inr sn
       else ebind (get_prop data K_sources) (\<lambda>ss. Inr (js_or ss (JArr []))))"

definition process_query :: "jsval \<Rightarrow> jsval \<Rightarrow> query_result res" where
  "process_query data question =
     ebind (get_prop data K_retrieval_nodes) (\<lambda>rn.
       case rn of
         JArr items \<Rightarrow>
           ebind (extract_nodes items) (\<lambda>nodes.
           ebind (new_format_answer nodes) (\<lambda>a.
           ebind (map_idx_res make_source nodes) (\<lambda>srcs.
             Inr (mk_query_result a srcs question))))
       | _ \<Rightarrow>
           ebind (legacy_answer data) (\<lambda>a.
           ebind (legacy_list data) (\<lambda>lst.
           ebind (js_map_idx make_source lst) (\<lambda>srcs.
             Inr (mk_query_result a srcs question)))))"

text \<open>Lines 294--322 of \<open>searchDocuments\<close>: new format, else \<open>data.source_nodes\<close> when
  it is an array, else no documents.\<close>

definition mk_search_result :: "jsval \<Rightarrow> document list \<Rightarrow> search_result" where
  "mk_search_result q docs = \<lparr>sr_query = q, sr_documents = docs, sr_total_found = length docs\<rparr>"

definition process_search :: "jsval \<Rightarrow> jsval \<Rightarrow> search_result res" where
  "process_search data query =
     ebind (get_prop data K_retrieval_nodes) (\<lambda>rn.
       case rn of
         JArr items \<Rightarrow>
           ebind (extract_nodes items) (\<lambda>nodes.
           ebind (map_idx_res make_document nodes) (\<lambda>docs.
             Inr (mk_search_result query docs)))
       | _ \<Rightarrow>
           ebind (get_prop data K_source_nodes) (\<lambda>sn.
             case sn of
               JArr ns \<Rightarrow> ebind (map_idx_res make_document ns) (\<lambda>docs.
                            Inr (mk_search_result query docs))
             | _ \<Rightarrow> Inr (mk_search_result query [])))"

text \<open>The unfoldings that evaluate both normalizers on a concrete payload by \<open>simp\<close>.\<close>

lemmas normalizer_eval = process_query_def process_search_def extract_nodes_def
  new_format_answer_def contexts_def node_text_def trim_truthy_def answer_text_def
  map_idx_res_def make_source_def make_document_def node_filename_def fallback_name_def
  node_score_def node_preview_def substring0_def mk_query_result_def mk_search_result_def
  legacy_answer_def legacy_list_def js_map_idx_def nl_def

subsection \<open>Pure views of the per-node fields\<close>

text \<open>What the per-node expressions evaluate to on a node that is not \<open>null\<close> or
  \<open>undefined\<close> and whose text is a string: the statements of the lemmas below.\<close>

definition text_value :: "jsval \<Rightarrow> jsval" where
  "text_value node = js_or (opt_get node K_text) (js_or (opt_get node K_content) (JStr []))"

definition source_of :: "nat \<Rightarrow> jsval \<Rightarrow> jstr \<Rightarrow> source" where
  "source_of i node t =
     \<lparr>src_id = Suc i, src_filename = fallback_name i (opt_get node K_metadata),
      src_score = js_or (opt_get node K_score) (JNum 0), src_preview = take 150 t @ js ''...''\<rparr>"

definition node_list :: "jsval list \<Rightarrow> jsval list" where
  "node_list items = filter truthy (map (\<lambda>it. opt_get it K_node) items)"

definition document_of :: "nat \<Rightarrow> jsval \<Rightarrow> jstr \<Rightarrow> document" where
  "document_of i node t =
     \<lparr>doc_id = Suc i, doc_filename = fallback_name i (opt_get node K_metadata),
      doc_score = js_or (opt_get node K_score) (JNum 0), doc_content = take 300 t @ js ''...'',
      doc_metadata = js_or (opt_get node K_metadata) (JObj [])\<rparr>"

subsection \<open>Per-node lemmas\<close>

lemma node_text_eq: "\<not> nullish node \<Longrightarrow> node_text node = Inr (text_value node)"
  by (simp add: node_text_def text_value_def get_prop_not_nullish js_or_def)

lemma node_text_Inr_not_nullish: "node_text node = Inr v \<Longrightarrow> \<not> nullish node"
  by (auto simp: node_text_def nullish_def)

lemma node_text_nullish: "nullish node \<Longrightarrow> node_text node = Inl (ReadOfNullish K_text)"
  by (auto simp: node_text_def nullish_def)

lemma node_preview_Inr_iff:
  "node_preview n node = Inr p \<longleftrightarrow> (\<exists>t. node_text node = Inr (JStr t) \<and> p = take n t @ js ''...'')"
  unfolding node_preview_def
  by (cases "node_text node")
     (auto simp: substring0_def no_method_def split: jsval.split_asm)

lemma make_source_ok:
  "node_text node = Inr (JStr t) \<Longrightarrow> make_source i node = Inr (source_of i node t)"
  by (frule node_text_Inr_not_nullish)
     (simp add: make_source_def node_filename_def node_score_def node_preview_def
        substring0_def source_of_def get_prop_not_nullish)

lemma make_source_Inr_iff:
  "make_source i node = Inr s \<longleftrightarrow> (\<exists>t. node_text node = Inr (JStr t) \<and> s = source_of i node t)"
proof
  assume "make_source i node = Inr s"
  then obtain p where "node_preview 150 node = Inr p"
    by (auto simp: make_source_def ebind_eq_Inr)
  then obtain t where "node_text node = Inr (JStr t)"
    by (auto simp: node_preview_Inr_iff)
  with \<open>make_source i node = Inr s\<close> show "\<exists>t. node_text node = Inr (JStr t) \<and> s = source_of i node t"
    by (simp add: make_source_ok)
qed (auto simp: make_source_ok)

lemma make_source_id: "make_source i node = Inr s \<Longrightarrow> src_id s = Suc i"
  by (auto simp: make_source_Inr_iff source_of_def)

lemma map_idx_make_source_ids:
  "map_idx_res make_source xs = Inr ys \<Longrightarrow> map src_id ys = [1..<Suc (length ys)]"
  by (erule map_idx_res_ids) (rule make_source_id)

lemma make_document_id: "make_document i node = Inr d \<Longrightarrow> doc_id d = Suc i"
  by (auto simp: make_document_def ebind_eq_Inr)

lemma js_map_idx_make_source_ids:
  "js_map_idx make_source v = Inr ys \<Longrightarrow> map src_id ys = [1..<Suc (length ys)]"
  by (cases v) (simp_all add: js_map_idx_def no_method_def map_idx_make_source_ids del: upt_Suc)

lemma process_query_cases:
  assumes "process_query data q = Inr r"
  obtains (new) items nodes where "get_prop data K_retrieval_nodes = Inr (JArr items)"
      "extract_nodes items = Inr nodes" "new_format_answer nodes = Inr (qr_answer r)"
      "map_idx_res make_source nodes = Inr (qr_sources r)"
      "r = mk_query_result (qr_answer r) (qr_sources r) q"
  | (legacy) rn lst where "get_prop data K_retrieval_nodes = Inr rn" "\<forall>xs. rn \<noteq> JArr xs"
      "legacy_answer data = Inr (qr_answer r)" "legacy_list data = Inr lst"
      "js_map_idx make_source lst = Inr (qr_sources r)"
      "r = mk_query_result (qr_answer r) (qr_sources r) q"
  using assms unfolding process_query_def
  by (cases "get_prop data K_retrieval_nodes"; cases "projr (get_prop data K_retrieval_nodes)")
     (auto simp: ebind_eq_Inr mk_query_result_def)

text \<open>C1: Every successful \<open>queryRAG\<close> normalization, in either format, numbers its
  sources \<open>1..n\<close> contiguously in order and reports \<open>total_sources = n\<close>.\<close>

theorem process_query_ids:
  assumes "process_query data q = Inr r"
  shows "map src_id (qr_sources r) = [1..<Suc (length (qr_sources r))]
         \<and> qr_total_sources r = length (qr_sources r)"
  using assms
proof (cases rule: process_query_cases)
  case new
  then show ?thesis
    by (metis map_idx_make_source_ids mk_query_result_def query_result.select_convs(3))
next
  case legacy
  then show ?thesis
    by (metis js_map_idx_make_source_ids mk_query_result_def query_result.select_convs(3))
qed

lemma extract_nodes_ok:
  "\<forall>it\<in>set items. \<not> nullish it \<Longrightarrow> extract_nodes items = Inr (node_list items)"
  by (simp add: extract_nodes_def node_list_def map_res_ok get_prop_not_nullish)

lemma extract_nodes_Inr:
  assumes "extract_nodes items = Inr ns"
  shows "(\<forall>it\<in>set items. \<not> nullish it) \<and> ns = node_list items"
proof -
  from assms obtain ns0 where m: "map_res (\<lambda>it. get_prop it K_node) items = Inr ns0"
      and ns: "ns = filter truthy ns0"
    by (auto simp: extract_nodes_def ebind_eq_Inr)
  from map_res_Inr_D [OF m]
  have ok: "\<forall>it\<in>set items. \<not> nullish it"
    by (auto dest: get_prop_Inr_not_nullish)
  with map_res_Inr_D [OF m] have "ns0 = map (\<lambda>it. opt_get it K_node) items"
    by (simp add: get_prop_not_nullish)
  with ok ns show ?thesis by (simp add: node_list_def)
qed

subsection \<open>Behaviour of the two normalizers\<close>


lemma trim_truthy_str:
  "is_str v \<Longrightarrow> trim_truthy v = Inr (truthy (JStr (js_trim (str_of v))))"
  by (cases v) (simp_all add: is_str_def str_of_def trim_truthy_def)

lemma contexts_ok:
  assumes "\<forall>n\<in>set nodes. \<not> nullish n \<and> is_str (text_value n)"
  shows "contexts nodes =
           Inr (take 3 (filter (\<lambda>v. truthy (JStr (js_trim (str_of v)))) (map text_value nodes)))"
proof -
  from assms have "map_res node_text nodes = Inr (map text_value nodes)"
    by (simp add: map_res_ok node_text_eq)
  moreover from assms have "filter_res trim_truthy (map text_value nodes) =
      Inr (filter (\<lambda>v. truthy (JStr (js_trim (str_of v)))) (map text_value nodes))"
    by (intro filter_res_ok) (auto simp: trim_truthy_str)
  ultimately show ?thesis by (simp add: contexts_def)
qed

lemma map_text_value_str:
  "\<forall>n\<in>set nodes. is_str (text_value n) \<Longrightarrow>
     map text_value nodes = map JStr (map (\<lambda>n. str_of (text_value n)) nodes)"
  by (induction nodes) (auto simp: is_str_iff [symmetric])

lemma new_format_answer_eq:
  assumes "\<forall>n\<in>set nodes. \<not> nullish n \<and> is_str (text_value n)"
  shows "new_format_answer nodes =
     Inr (JStr (let cs = take 3 (filter (\<lambda>t. \<exists>c\<in>set t. \<not> js_ws c)
                                   (map (\<lambda>n. str_of (text_value n)) nodes))
                in if cs = [] then []
                   else js ''Based on the found documents:'' @ nl @ nl @
                        join (nl @ nl @ js ''---'' @ nl @ nl) cs))"
proof (cases "nodes = []")
  case True
  then show ?thesis by (simp add: new_format_answer_def)
next
  case False
  let ?ts = "map (\<lambda>n. str_of (text_value n)) nodes"
  from assms have c: "contexts nodes =
      Inr (take 3 (filter (\<lambda>v. truthy (JStr (js_trim (str_of v)))) (map text_value nodes)))"
    by (rule contexts_ok)
  from assms have m: "map text_value nodes = map JStr ?ts"
    by (intro map_text_value_str) simp
  have "filter (\<lambda>v. truthy (JStr (js_trim (str_of v)))) (map JStr ?ts) =
        map JStr (filter (\<lambda>t. \<exists>c\<in>set t. \<not> js_ws c) ?ts)"
    by (simp add: filter_map comp_def js_trim_Nil_iff)
  with c m False show ?thesis
    by (simp add: new_format_answer_def answer_text_def take_map comp_def Let_def)
qed

lemma new_format_answer_ok:
  "\<forall>n\<in>set nodes. \<not> nullish n \<and> is_str (text_value n) \<Longrightarrow> \<exists>a. new_format_answer nodes = Inr a"
  by (drule new_format_answer_eq) blast

text \<open>C3: The new-format answer is empty when no node text has a non-whitespace code unit, and
  otherwise the fixed introduction followed by the first three such texts joined by the
  \<open>---\<close> separator.\<close>

theorem new_format_answer_spec:
  assumes "\<forall>n\<in>set nodes. truthy n \<and> is_str (text_value n)"
  shows "new_format_answer nodes =
     Inr (JStr (let cs = take 3 (filter (\<lambda>t. \<exists>c\<in>set t. \<not> js_ws c)
                                   (map (\<lambda>n. str_of (text_value n)) nodes))
                in if cs = [] then []
                   else js ''Based on the found documents:'' @ nl @ nl @
                        join (nl @ nl @ js ''---'' @ nl @ nl) cs))"
  using assms by (intro new_format_answer_eq) (auto dest: truthy_not_nullish)

text \<open>C4: A preview is the text cut to the budget followed by an ellipsis that is always
  appended: at most budget + 3 code units, ending in \<open>...\<close>.\<close>

theorem node_preview_bounds:
  assumes "node_preview n node = Inr p"
  shows "length p \<le> n + 3 \<and> (\<exists>q. p = q @ js ''...'' \<and> length q \<le> n)"
  using assms by (auto simp: node_preview_Inr_iff js_def)

lemma extract_nodes_nullish:
  assumes "it \<in> set items" and "nullish it"
  shows "extract_nodes items = Inl (ReadOfNullish K_node)"
proof -
  from assms have "get_prop it K_node = Inl (ReadOfNullish K_node)"
    by (simp add: get_prop_Inl_iff)
  from map_res_Inl_if [where f = "\<lambda>it. get_prop it K_node", OF assms(1) this]
  obtain e where e: "map_res (\<lambda>it. get_prop it K_node) items = Inl e" ..
  then obtain x where "get_prop x K_node = Inl e" by (blast dest: map_res_Inl_ex)
  then have "e = ReadOfNullish K_node" by (simp add: get_prop_Inl_iff)
  with e show ?thesis by (simp add: extract_nodes_def)
qed

text \<open>C5: A \<open>null\<close> (or \<open>undefined\<close>) item in \<open>retrieval_nodes\<close> is not dropped: reading
  \<open>item.node\<close> throws, and the whole \<open>queryRAG\<close> call fails with that \<open>TypeError\<close>.\<close>

theorem process_query_nullish_item:
  assumes "get_prop data K_retrieval_nodes = Inr (JArr items)"
    and "it \<in> set items" and "nullish it"
  shows "process_query data q = Inl (ReadOfNullish K_node)"
  using assms by (simp add: process_query_def extract_nodes_nullish)

lemma process_query_legacy_eq:
  assumes "get_prop data K_retrieval_nodes = Inr rn" and "\<forall>xs. rn \<noteq> JArr xs"
  shows "process_query data q =
     ebind (legacy_answer data) (\<lambda>a. ebind (legacy_list data) (\<lambda>lst.
     ebind (js_map_idx make_source lst) (\<lambda>srcs. Inr (mk_query_result a srcs q))))"
  using assms by (cases rn) (simp_all add: process_query_def)

text \<open>C6: A payload with no \<open>retrieval_nodes\<close> array and no truthy \<open>answer\<close>, \<open>response\<close>,
  \<open>source_nodes\<close> or \<open>sources\<close> normalizes to the \<open>No answer received.\<close> sentinel with
  no sources.\<close>

theorem process_query_no_fields:
  assumes "get_prop data K_retrieval_nodes = Inr rn" and "\<forall>xs. rn \<noteq> JArr xs"
    and "\<not> truthy (opt_get data K_answer)" and "\<not> truthy (opt_get data K_response)"
    and "\<not> truthy (opt_get data K_source_nodes)" and "\<not> truthy (opt_get data K_sources)"
  shows "process_query data q = Inr (mk_query_result (JStr (js ''No answer received.'')) [] q)"
proof -
  from assms(1) have nn: "\<not> nullish data" by (rule get_prop_Inr_not_nullish)
  with assms(3,4) have "legacy_answer data = Inr (JStr (js ''No answer received.''))"
    by (simp add: legacy_answer_def get_prop_not_nullish js_def)
  moreover from nn assms(5,6) have "legacy_list data = Inr (JArr [])"
    by (simp add: legacy_list_def get_prop_not_nullish)
  ultimately show ?thesis
    using assms(1,2) by (simp add: process_query_legacy_eq js_map_idx_def map_idx_res_def)
qed


lemma make_document_ok:
  "node_text node = Inr (JStr t) \<Longrightarrow> make_document i node = Inr (document_of i node t)"
  by (frule node_text_Inr_not_nullish)
     (simp add: make_document_def node_filename_def node_score_def node_preview_def
        substring0_def document_of_def get_prop_not_nullish)

lemma node_text_str:
  "\<not> nullish n \<Longrightarrow> is_str (text_value n) \<Longrightarrow> node_text n = Inr (JStr (str_of (text_value n)))"
  by (simp add: node_text_eq is_str_iff [symmetric])

lemma node_text_Inr: "node_text n = Inr v \<Longrightarrow> v = text_value n"
  using node_text_eq node_text_Inr_not_nullish by fastforce

lemma node_list_truthy: "n \<in> set (node_list items) \<Longrightarrow> truthy n"
  by (simp add: node_list_def)

lemma make_source_map:
  assumes "\<forall>n\<in>set nodes. \<not> nullish n \<and> is_str (text_value n)"
  shows "map_idx_res make_source nodes =
           Inr (map2 (\<lambda>i n. source_of i n (str_of (text_value n))) [0..<length nodes] nodes)"
  using assms by (intro map_idx_res_ok) (simp add: make_source_ok node_text_str)

lemma make_document_map:
  assumes "\<forall>n\<in>set nodes. \<not> nullish n \<and> is_str (text_value n)"
  shows "map_idx_res make_document nodes =
           Inr (map2 (\<lambda>i n. document_of i n (str_of (text_value n))) [0..<length nodes] nodes)"
  using assms by (intro map_idx_res_ok) (simp add: make_document_ok node_text_str)

text \<open>C2: On a new-format payload (\<open>data.retrieval_nodes\<close> is an array) whose items are
  not \<open>null\<close>/\<open>undefined\<close> and whose kept nodes carry string texts, \<open>queryRAG\<close>
  succeeds and yields exactly one source per truthy node, in the nodes' order, the
  \<open>i\<close>-th with id \<open>i + 1\<close>, the file-name and score fallbacks and the 150-unit preview.\<close>

theorem process_query_new_format:
  assumes "get_prop data K_retrieval_nodes = Inr (JArr items)"
    and "\<forall>it\<in>set items. \<not> nullish it"
    and "\<forall>n\<in>set (node_list items). is_str (text_value n)"
  shows "\<exists>a. process_query data q =
           Inr (mk_query_result a (map2 (\<lambda>i n. source_of i n (str_of (text_value n)))
                                     [0..<length (node_list items)] (node_list items)) q)"
proof -
  let ?ns = "node_list items"
  have ok: "\<forall>n\<in>set ?ns. \<not> nullish n \<and> is_str (text_value n)"
    using assms(3) by (auto dest: node_list_truthy truthy_not_nullish)
  from ok obtain a where "new_format_answer ?ns = Inr a"
    by (blast dest: new_format_answer_ok)
  with assms(1,2) ok show ?thesis
    by (auto simp: process_query_def extract_nodes_ok make_source_map)
qed

lemma process_search_new_format:
  assumes "get_prop data K_retrieval_nodes = Inr (JArr items)"
    and "\<forall>it\<in>set items. \<not> nullish it"
    and "\<forall>n\<in>set (node_list items). is_str (text_value n)"
  shows "process_search data q =
           Inr (mk_search_result q (map2 (\<lambda>i n. document_of i n (str_of (text_value n)))
                                     [0..<length (node_list items)] (node_list items)))"
proof -
  have "\<forall>n\<in>set (node_list items). \<not> nullish n \<and> is_str (text_value n)"
    using assms(3) by (auto dest: node_list_truthy truthy_not_nullish)
  with assms(1,2) show ?thesis
    by (simp add: process_search_def extract_nodes_ok make_document_map)
qed

text \<open>C7: On a new-format payload on which \<open>queryRAG\<close> succeeds, \<open>searchDocuments\<close> succeeds
  too and describes the same nodes: same ids, file names and scores, with the 150- and
  300-unit cuts of the same text.\<close>

theorem search_agrees_with_query:
  assumes "get_prop data K_retrieval_nodes = Inr (JArr items)"
    and "process_query data q = Inr r"
  shows "\<exists>s. process_search data q' = Inr s
           \<and> length (sr_documents s) = length (qr_sources r)
           \<and> (\<forall>i<length (qr_sources r).
                 doc_id (sr_documents s ! i) = src_id (qr_sources r ! i)
               \<and> doc_filename (sr_documents s ! i) = src_filename (qr_sources r ! i)
               \<and> doc_score (sr_documents s ! i) = src_score (qr_sources r ! i)
               \<and> (\<exists>t. src_preview (qr_sources r ! i) = take 150 t @ js ''...''
                     \<and> doc_content (sr_documents s ! i) = take 300 t @ js ''...''))"
  using assms(2)
proof (cases rule: process_query_cases)
  case (new items' nodes)
  with assms(1) have items': "items' = items" by simp
  from new(2) items' have nn: "\<forall>it\<in>set items. \<not> nullish it" and ns: "nodes = node_list items"
    by (auto dest: extract_nodes_Inr)
  from new(4) have each: "\<forall>i<length nodes. make_source i (nodes ! i) = Inr (qr_sources r ! i)"
    by (simp add: map_idx_res_Inr_iff)
  from new(4) have len: "length (qr_sources r) = length nodes"
    by (simp add: map_idx_res_Inr_iff)
  have str: "\<forall>n\<in>set nodes. is_str (text_value n)"
  proof
    fix n assume "n \<in> set nodes"
    then obtain i where i: "i < length nodes" "n = nodes ! i" by (auto simp: in_set_conv_nth)
    with each obtain t where "node_text n = Inr (JStr t)" by (auto simp: make_source_Inr_iff)
    then have "text_value n = JStr t" by (metis node_text_Inr)
    then show "is_str (text_value n)" by (simp add: is_str_def)
  qed
  have src: "\<forall>i<length nodes. qr_sources r ! i = source_of i (nodes ! i) (str_of (text_value (nodes ! i)))"
  proof (intro allI impI)
    fix i assume "i < length nodes"
    with each str have "make_source i (nodes ! i) = Inr (qr_sources r ! i)"
      and "is_str (text_value (nodes ! i))" by auto
    moreover from this(1) have "\<not> nullish (nodes ! i)"
      by (auto simp: make_source_Inr_iff dest: node_text_Inr_not_nullish)
    ultimately show "qr_sources r ! i = source_of i (nodes ! i) (str_of (text_value (nodes ! i)))"
      by (simp add: make_source_ok node_text_str)
  qed
  from assms(1) nn str ns have
    "process_search data q' = Inr (mk_search_result q' (map2 (\<lambda>i n. document_of i n (str_of (text_value n))) [0..<length nodes] nodes))"
    by (simp add: process_search_new_format)
  with src len show ?thesis
    by (auto simp: mk_search_result_def document_of_def source_of_def)
next
  case legacy
  with assms(1) show ?thesis by simp
qed

subsection \<open>The normalizers throw only TypeErrors\<close>

lemma node_text_type_error [type_errors]: "node_text n = Inl e \<Longrightarrow> type_error e"
  by (auto simp: node_text_def elim!: ebind_InlE split: if_splits dest: type_errors)

lemma substring0_type_error [type_errors]: "substring0 v n = Inl e \<Longrightarrow> type_error e"
  by (auto simp: substring0_def split: jsval.splits dest: type_errors)

lemma node_preview_type_error [type_errors]: "node_preview n node = Inl e \<Longrightarrow> type_error e"
  by (auto simp: node_preview_def elim!: ebind_InlE dest: type_errors)

lemma make_source_type_error [type_errors]: "make_source i node = Inl e \<Longrightarrow> type_error e"
  by (auto simp: make_source_def node_filename_def node_score_def elim!: ebind_InlE dest: type_errors)

lemma make_document_type_error [type_errors]: "make_document i node = Inl e \<Longrightarrow> type_error e"
  by (auto simp: make_document_def node_filename_def node_score_def elim!: ebind_InlE dest: type_errors)

lemma js_map_idx_type_error:
  "js_map_idx f v = Inl e \<Longrightarrow> (\<And>i x e. f i x = Inl e \<Longrightarrow> type_error e) \<Longrightarrow> type_error e"
  by (auto simp: js_map_idx_def split: jsval.splits elim: map_idx_res_type_error dest: type_errors)

lemma extract_nodes_type_error [type_errors]: "extract_nodes items = Inl e \<Longrightarrow> type_error e"
  by (auto simp: extract_nodes_def elim!: ebind_InlE elim: map_res_type_error dest: type_errors)

lemma trim_truthy_type_error [type_errors]: "trim_truthy v = Inl e \<Longrightarrow> type_error e"
  by (auto simp: trim_truthy_def split: jsval.splits dest: type_errors)

lemma contexts_type_error [type_errors]: "contexts nodes = Inl e \<Longrightarrow> type_error e"
  by (auto simp: contexts_def elim!: ebind_InlE map_res_type_error filter_res_type_error
           dest: type_errors)

lemma answer_text_type_error [type_errors]: "answer_text cs = Inl e \<Longrightarrow> type_error e"
  by (auto simp: answer_text_def elim!: ebind_InlE dest: type_errors)

lemma new_format_answer_type_error [type_errors]: "new_format_answer ns = Inl e \<Longrightarrow> type_error e"
  by (auto simp: new_format_answer_def elim!: ebind_InlE split: if_splits dest: type_errors)

lemma legacy_answer_type_error [type_errors]: "legacy_answer d = Inl e \<Longrightarrow> type_error e"
  by (auto simp: legacy_answer_def elim!: ebind_InlE split: if_splits dest: type_errors)

lemma legacy_list_type_error [type_errors]: "legacy_list d = Inl e \<Longrightarrow> type_error e"
  by (auto simp: legacy_list_def elim!: ebind_InlE split: if_splits dest: type_errors)

lemma process_query_type_error [type_errors]: "process_query data q = Inl e \<Longrightarrow> type_error e"
  unfolding process_query_def
  by (erule ebind_InlE; auto split: jsval.splits elim!: ebind_InlE
        elim!: map_idx_res_type_error js_map_idx_type_error dest: type_errors)

lemma process_search_type_error [type_errors]: "process_search data q = Inl e \<Longrightarrow> type_error e"
  unfolding process_search_def
  by (erule ebind_InlE; auto split: jsval.splits elim!: ebind_InlE map_idx_res_type_error
        dest: type_errors)

lemma legacy_answer_ok: "\<not> nullish data \<Longrightarrow> \<exists>a. legacy_answer data = Inr a"
  by (simp add: legacy_answer_def get_prop_not_nullish)

text \<open>C25: A node whose metadata has neither a truthy \<open>file_name\<close> nor a truthy
  \<open>filename\<close> is named \<open>Document n\<close>, \<open>n\<close> being its 1-based ordinal written in decimal
  (the spec's example: ordinal 3 gives \<open>Document 3\<close>).\<close>

theorem make_source_fallback_name:
  assumes "make_source i node = Inr s"
    and "\<not> truthy (opt_get (opt_get node K_metadata) K_file_name)"
    and "\<not> truthy (opt_get (opt_get node K_metadata) K_filename)"
    and "Suc i < 10 ^ 15"
  shows "src_filename s = JStr (js ''Document '' @ decimal (Suc i))"
  using assms
  by (auto simp: make_source_Inr_iff source_of_def fallback_name_def number_to_string_nat js_or_def
           simp del: of_nat_Suc)

text \<open>C26: On a payload without a \<open>retrieval_nodes\<close> array, a truthy \<open>source_nodes\<close> (or
  \<open>sources\<close>) that is not an array makes \<open>queryRAG\<close> throw \<open>TypeError: map is not a
  function\<close>. The legacy branch does not fall back to an empty list.\<close>

theorem process_query_legacy_not_array:
  assumes "get_prop data K_retrieval_nodes = Inr rn" and "\<forall>xs. rn \<noteq> JArr xs"
    and "legacy_list data = Inr l" and "truthy l" and "\<forall>xs. l \<noteq> JArr xs"
  shows "process_query data q = Inl (NotAFunction M_map)"
proof -
  obtain a where a: "legacy_answer data = Inr a"
    using legacy_answer_ok get_prop_Inr_not_nullish [OF assms(1)] by blast
  have "js_map_idx make_source l = Inl (NotAFunction M_map)"
    using assms(4,5) by (cases l) (simp_all add: js_map_idx_def no_method_def nullish_def)
  then show ?thesis by (simp add: process_query_legacy_eq [OF assms(1,2)] a assms(3))
qed

text \<open>C23: On a payload without a \<open>retrieval_nodes\<close> array, a successful
  \<open>searchDocuments\<close> normalization lists every entry of a \<open>source_nodes\<close> array: as many
  documents as nodes, numbered \<open>1..n\<close> in order. Nothing limits the list locally, and
  \<open>top_k\<close> reaches neither this step nor the request (C10).\<close>

theorem process_search_legacy_all:
  assumes "get_prop data K_retrieval_nodes = Inr rn" and "\<forall>xs. rn \<noteq> JArr xs"
    and "get_prop data K_source_nodes = Inr (JArr ns)"
    and "process_search data q = Inr r"
  shows "sr_total_found r = length ns \<and> map doc_id (sr_documents r) = [1..<Suc (length ns)]"
proof -
  from assms obtain docs where d: "map_idx_res make_document ns = Inr docs"
      and r: "r = mk_search_result q docs"
    by (cases rn) (auto simp: process_search_def ebind_eq_Inr)
  from d have "length docs = length ns" by (simp add: map_idx_res_Inr_iff)
  moreover from d have "map doc_id docs = [1..<Suc (length docs)]"
    by (rule map_idx_res_ids) (rule make_document_id)
  ultimately show ?thesis by (simp add: r mk_search_result_def)
qed

text \<open>C27: \<open>searchDocuments\<close> reads only \<open>retrieval_nodes\<close> and \<open>source_nodes\<close>: on a
  payload with neither as an array it finds no documents, even when \<open>sources\<close> is an
  array that \<open>queryRAG\<close> would list.\<close>

theorem process_search_ignores_sources:
  assumes "get_prop data K_retrieval_nodes = Inr rn" and "\<forall>xs. rn \<noteq> JArr xs"
    and "get_prop data K_source_nodes = Inr sn" and "\<forall>xs. sn \<noteq> JArr xs"
  shows "process_search data q = Inr (mk_search_result q [])"
  using assms by (cases rn; cases sn) (simp_all add: process_search_def)

end
