(* ===== verification/Config.thy ===== *)
theory Config
  imports JS_Core
begin

text \<open>
  The configuration that the constructor of \<open>LlamaCloudMCPServer\<close>
  (\<open>src/src/index.ts\<close>, lines 38--64) builds from the environment, and its validity check.
  The environment is a partial map from variable names to strings; the record is never
  changed after construction.
\<close>

type_synonym env = "jstr \<Rightarrow> jstr option"

record config =
  api_key :: jstr
  pipeline_url :: jstr
  pipeline_id :: "jstr option"
  index_name :: jstr
  project_name :: jstr
  organization_id :: jstr

text \<open>\<open>(process.env.X || "").trim()\<close>\<close>

definition env_str :: "env \<Rightarrow> jstr \<Rightarrow> jstr" where
  "env_str e x = js_trim (case e x of None \<Rightarrow> [] | Some v \<Rightarrow> v)"

definition pipeline_base :: jstr where
  "pipeline_base = js ''https://api.cloud.llamaindex.ai/api/v1/pipelines/''"

text \<open>Lines 42--46: an explicit URL wins; otherwise one is built from a non-empty id.\<close>

definition resolve_url :: "jstr \<Rightarrow> jstr \<Rightarrow> jstr" where
  "resolve_url url pid =
     (if url \<noteq> [] then url else if pid \<noteq> [] then pipeline_base @ pid @ js ''/retrieve'' else [])"

text \<open>Lines 40--55.\<close>

definition load_config :: "env \<Rightarrow> config" where
  "load_config e =
     (let pid = env_str e (js ''LLAMA_CLOUD_PIPELINE_ID'');
          url = env_str e (js ''LLAMA_CLOUD_PIPELINE_URL'')
      in \<lparr>api_key = env_str e (js ''LLAMA_CLOUD_API_KEY''),
          pipeline_url = resolve_url url pid,
          pipeline_id = (if pid \<noteq> [] then Some pid else None),
          index_name = js ''dbms'', project_name = js ''Default'',
          organization_id = env_str e (js ''LLAMA_CLOUD_ORGANIZATION_ID'')\<rparr>)"

text \<open>Line 57 negated: the constructor continues only when this holds.\<close>

definition config_ok :: "config \<Rightarrow> bool" where
  "config_ok c \<longleftrightarrow> api_key c \<noteq> [] \<and> organization_id c \<noteq> [] \<and> pipeline_url c \<noteq> []"

subsection \<open>Lemmas\<close>

lemma resolve_url_explicit: "url \<noteq> [] \<Longrightarrow> resolve_url url pid = url"
  by (simp add: resolve_url_def)

lemma resolve_url_Nil_iff: "resolve_url url pid = [] \<longleftrightarrow> url = [] \<and> pid = []"
  by (simp add: resolve_url_def pipeline_base_def js_def)

lemma env_str_Nil_iff:
  "env_str e x = [] \<longleftrightarrow> (\<forall>v. e x = Some v \<longrightarrow> (\<forall>c\<in>set v. js_ws c))"
  by (cases "e x") (simp_all add: env_str_def js_trim_Nil_iff)

text \<open>C16: The constructor goes on (does not exit) exactly when the trimmed API key and
  organization id are non-empty, and the trimmed pipeline URL or pipeline id is non-empty.
  A value of white space only counts as missing.\<close>

theorem config_ok_iff:
  "config_ok (load_config e) \<longleftrightarrow>
     env_str e (js ''LLAMA_CLOUD_API_KEY'') \<noteq> [] \<and>
     env_str e (js ''LLAMA_CLOUD_ORGANIZATION_ID'') \<noteq> [] \<and>
     (env_str e (js ''LLAMA_CLOUD_PIPELINE_URL'') \<noteq> [] \<or>
      env_str e (js ''LLAMA_CLOUD_PIPELINE_ID'') \<noteq> [])"
  by (auto simp: config_ok_def load_config_def Let_def resolve_url_Nil_iff)

end
