(* ===== verification/Renderer.thy ===== *)
theory Renderer
  imports Normalizer Config
begin

text \<open>
  The result renderer: the three template literals of \<open>src/src/index.ts\<close> that turn a
  normalized result into the single text item of the tool result (line 277 of
  \<open>queryRAG\<close>, line 330 of \<open>searchDocuments\<close>, lines 339--355 of \<open>getIndexInfo\<close>).
  Each \<open>${e}\<close> is evaluated and converted by \<open>ToString\<close> left to right, so the
  first substitution that throws is the error of the whole literal. The score is printed by
  \<open>s.score?.toFixed(2) || 'n/a'\<close>, which throws a \<open>TypeError\<close> when the score is a
  value other than a number, \<open>null\<close> or \<open>undefined\<close>.
\<close>

definition dq :: jstr where
  "dq = [0x22]"

definition bullet :: jstr where
  "bullet = [0x2022]"

text \<open>\<open>score?.toFixed(2) || 'n/a'\<close>\<close>

definition score_text :: "jsval \<Rightarrow> jsval res" where
  "score_text sc =
     (if nullish sc then Inr (js_or JUndef (JStr (js ''n/a'')))
      else case sc of
             JNum x \<Rightarrow> Inr (js_or (JStr (to_fixed 2 x)) (JStr (js ''n/a'')))
           | _ \<Rightarrow> no_method sc M_toFixed)"

text \<open>\<open>`${s.id}. ${s.filename} (relevance: ${...})\n   ${s.preview}`\<close>\<close>

definition source_line :: "source \<Rightarrow> jstr res" where
  "source_line s =
     ebind (js_to_string (src_filename s)) (\<lambda>f.
     ebind (score_text (src_score s)) (\<lambda>sc.
     ebind (js_to_string sc) (\<lambda>st.
       Inr (number_to_string (of_nat (src_id s)) @ js ''. '' @ f @
            js '' (relevance: '' @ st @ js '')'' @ nl @ js ''   '' @ src_preview s))))"

text \<open>Line 277.\<close>

definition render_query :: "query_result \<Rightarrow> jstr res" where
  "render_query r =
     ebind (js_to_string (qr_answer r)) (\<lambda>a.
     ebind (map_res source_line (qr_sources r)) (\<lambda>lines.
       Inr (js ''**Answer:** '' @ a @ nl @ nl @
            js ''**Sources ('' @ number_to_string (of_nat (qr_total_sources r)) @ js ''):**'' @ nl @
            join nl lines)))"

text \<open>\<open>`**${doc.id}. ${doc.filename}** (relevance: ${...})\n${doc.content}`\<close>\<close>

definition document_block :: "document \<Rightarrow> jstr res" where
  "document_block d =
     ebind (js_to_string (doc_filename d)) (\<lambda>f.
     ebind (score_text (doc_score d)) (\<lambda>sc.
     ebind (js_to_string sc) (\<lambda>st.
       Inr (js ''**'' @ number_to_string (of_nat (doc_id d)) @ js ''. '' @ f @
            js ''** (relevance: '' @ st @ js '')'' @ nl @ doc_content d))))"

text \<open>Line 330.\<close>

definition render_search :: "search_result \<Rightarrow> jstr res" where
  "render_search r =
     ebind (js_to_string (sr_query r)) (\<lambda>q.
     ebind (map_res document_block (sr_documents r)) (\<lambda>blocks.
       Inr (js ''**Search query:** '' @ dq @ q @ dq @ nl @ nl @
            js ''**Found documents:** '' @ number_to_string (of_nat (sr_total_found r)) @ nl @ nl @
            join (nl @ nl) blocks)))"

text \<open>Lines 339--347: the index information, computed on every call; \<open>now\<close> is the
  \<open>toISOString()\<close> of the clock at that moment.\<close>

record index_info =
  ii_name :: jstr
  ii_project :: jstr
  ii_organization_id :: jstr
  ii_pipeline_url :: jstr
  ii_status :: jstr
  ii_description :: jstr
  ii_last_updated :: jstr

definition mk_index_info :: "config \<Rightarrow> jstr \<Rightarrow> index_info" where
  "mk_index_info c now =
     \<lparr>ii_name = index_name c, ii_project = project_name c,
      ii_organization_id = organization_id c, ii_pipeline_url = pipeline_url c,
      ii_status = js ''active'', ii_description = js ''Index with database and DBMS documents'',
      ii_last_updated = now\<rparr>"

text \<open>Line 355.\<close>

definition render_info :: "index_info \<Rightarrow> jstr" where
  "render_info i =
     js ''**LlamaCloud Index Information:**'' @ nl @ nl @
     bullet @ js '' **Name:** '' @ ii_name i @ nl @
     bullet @ js '' **Project:** '' @ ii_project i @ nl @
     bullet @ js '' **Organization ID:** '' @ ii_organization_id i @ nl @
     bullet @ js '' **Status:** '' @ ii_status i @ nl @
     bullet @ js '' **Description:** '' @ ii_description i @ nl @
     bullet @ js '' **Pipeline URL:** '' @ ii_pipeline_url i @ nl @
     bullet @ js '' **Last checked:** '' @ ii_last_updated i"

lemmas renderer_eval = score_text_def source_line_def render_query_def document_block_def
  render_search_def mk_index_info_def render_info_def dq_def bullet_def

subsection \<open>Lemmas\<close>

lemma score_text_num: "score_text (JNum x) = Inr (JStr (to_fixed 2 x))"
  by (simp add: score_text_def js_or_def nullish_def to_fixed_ne)

lemma score_text_Inl_iff:
  "score_text sc = Inl e \<longleftrightarrow> \<not> nullish sc \<and> (\<forall>x. sc \<noteq> JNum x) \<and> e = NotAFunction M_toFixed"
  by (cases sc) (auto simp: score_text_def no_method_def nullish_def js_or_def)

lemma score_text_Inr: "score_text sc = Inr v \<Longrightarrow> js_to_string v = Inr (str_of v)"
  by (cases sc) (auto simp: score_text_def no_method_def js_or_def split: if_splits)

text \<open>A substitution \<open>${f} ... ${sc}\<close> fails with the first failing conversion.\<close>

lemma ebind_string_score_Inl:
  "ebind (js_to_string f) (\<lambda>x. ebind (score_text sc) (\<lambda>v. ebind (js_to_string v) (\<lambda>t. Inr (g x t)))) = Inl e \<longleftrightarrow>
     js_to_string f = Inl e \<or> (\<not> isl (js_to_string f) \<and> score_text sc = Inl e)"
  by (cases "js_to_string f"; cases "score_text sc") (auto dest: score_text_Inr)

lemma source_line_Inl_iff:
  "source_line s = Inl e \<longleftrightarrow>
     js_to_string (src_filename s) = Inl e \<or>
     (\<not> isl (js_to_string (src_filename s)) \<and> score_text (src_score s) = Inl e)"
  unfolding source_line_def by (rule ebind_string_score_Inl)

lemma document_block_Inl_iff:
  "document_block d = Inl e \<longleftrightarrow>
     js_to_string (doc_filename d) = Inl e \<or>
     (\<not> isl (js_to_string (doc_filename d)) \<and> score_text (doc_score d) = Inl e)"
  unfolding document_block_def by (rule ebind_string_score_Inl)

lemma map_res_Inl_iff: "(\<exists>e. map_res f xs = Inl e) \<longleftrightarrow> (\<exists>x\<in>set xs. \<exists>e. f x = Inl e)"
  by (blast dest: map_res_Inl_ex map_res_Inl_if)

lemma score_text_type_error [type_errors]: "score_text sc = Inl e \<Longrightarrow> type_error e"
  by (simp add: score_text_Inl_iff)

lemma render_query_type_error [type_errors]: "render_query r = Inl e \<Longrightarrow> type_error e"
  by (auto simp: render_query_def elim!: ebind_InlE map_res_type_error
           dest: type_errors simp: source_line_Inl_iff)

lemma render_search_type_error [type_errors]: "render_search r = Inl e \<Longrightarrow> type_error e"
  by (auto simp: render_search_def elim!: ebind_InlE map_res_type_error
           dest: type_errors simp: document_block_Inl_iff)

text \<open>C11: A score produced by the normalizer (\<open>node.score || 0\<close>) is printed by
  \<open>toFixed(2)\<close> when it is a number, and \<open>0\<close> when the node had a falsy score. The
  \<open>'n/a'\<close> fallback of the template is never reached. A truthy score that is not a
  number (a string, say) makes the renderer throw \<open>TypeError: toFixed is not a function\<close>.\<close>

theorem score_text_normalized:
  "score_text (js_or s (JNum 0)) =
     (case s of JNum x \<Rightarrow> Inr (JStr (to_fixed 2 x))
      | _ \<Rightarrow> if truthy s then Inl (NotAFunction M_toFixed) else Inr (JStr (to_fixed 2 0)))"
  by (cases s) (simp_all add: score_text_num js_or_def score_text_def no_method_def nullish_def to_fixed_ne)

text \<open>C12: For \<open>0 \<le> x < 10^21\<close> a score prints as an integer part, a point and exactly two
  digits, and these digits read back as \<open>x \<cdot> 100\<close> rounded to the nearest integer (up on a tie).\<close>

theorem score_text_two_decimals:
  assumes "0 \<le> x" "x < 10 ^ 21"
  shows "\<exists>ip fp. score_text (JNum x) = Inr (JStr (ip @ js ''.'' @ fp)) \<and> ip \<noteq> [] \<and>
                 length fp = 2 \<and> read_decimal (ip @ fp) = nat \<lfloor>x * 100 + 1/2\<rfloor>"
  using to_fixed_digits [OF assms, of 2] by (simp add: score_text_num)

text \<open>C13: Rendering the answer of \<open>queryRAG\<close> (line 277) throws exactly when the
  answer cannot be converted to a string, or some source has a file name that cannot be
  converted or a score that is neither a number nor \<open>null\<close>/\<open>undefined\<close>.\<close>

theorem render_query_fails_iff:
  "(\<exists>e. render_query r = Inl e) \<longleftrightarrow>
     isl (js_to_string (qr_answer r)) \<or>
     (\<exists>s\<in>set (qr_sources r). isl (js_to_string (src_filename s)) \<or>
        (\<not> nullish (src_score s) \<and> (\<forall>x. src_score s \<noteq> JNum x)))"
proof -
  have "(\<exists>e. render_query r = Inl e) \<longleftrightarrow>
      isl (js_to_string (qr_answer r)) \<or> (\<exists>e. map_res source_line (qr_sources r) = Inl e)"
    by (cases "js_to_string (qr_answer r)"; cases "map_res source_line (qr_sources r)")
       (simp_all add: render_query_def)
  moreover have "\<And>s. (\<exists>e. source_line s = Inl e) \<longleftrightarrow> isl (js_to_string (src_filename s)) \<or>
      (\<not> nullish (src_score s) \<and> (\<forall>x. src_score s \<noteq> JNum x))"
    by (case_tac "js_to_string (src_filename s)") (auto simp: source_line_Inl_iff score_text_Inl_iff)
  ultimately show ?thesis by (simp add: map_res_Inl_iff)
qed

text \<open>C24: A source whose node has a falsy score (absent, \<open>null\<close>, \<open>0\<close>, \<open>""\<close>,
  \<open>false\<close>) is rendered with relevance \<open>0.00\<close>, not \<open>n/a\<close>: given that its file name
  converts to a string, its whole line is the ordinal, the name, \<open>(relevance: 0.00)\<close> and
  the preview.\<close>

theorem falsy_score_line:
  assumes "make_source i node = Inr s" and "\<not> truthy (opt_get node K_score)"
    and "js_to_string (src_filename s) = Inr f" and "Suc i < 10 ^ 15"
  shows "source_line s =
     Inr (decimal (Suc i) @ js ''. '' @ f @ js '' (relevance: 0.00)'' @ nl @ js ''   '' @ src_preview s)"
proof -
  from assms(1) obtain t where s: "s = source_of i node t" by (auto simp: make_source_Inr_iff)
  with assms(2) have sc: "src_score s = JNum 0" by (simp add: source_of_def js_or_def)
  have z: "score_text (JNum 0) = Inr (JStr (js ''0.00''))"
    by (simp add: score_text_num number_eval js_lit)
  have i: "number_to_string (of_nat (src_id s)) = decimal (Suc i)"
    using assms(4) by (simp add: s source_of_def number_to_string_nat del: of_nat_Suc)
  show ?thesis using assms(3) by (simp add: source_line_def sc z i js_def)
qed

text \<open>C28: The id at the head of a rendered source line is printed in decimal and reads
  back as the id (for ids below \<open>10^15\<close>, far above any result count).\<close>

theorem source_line_id_roundtrip:
  assumes "source_line s = Inr t" and "src_id s < 10 ^ 15"
  shows "\<exists>ds rest. t = ds @ js ''. '' @ rest \<and> ds \<noteq> [] \<and> read_decimal ds = src_id s"
proof -
  from assms(1) obtain f st where "t = number_to_string (of_nat (src_id s)) @ js ''. '' @
      f @ js '' (relevance: '' @ st @ js '')'' @ nl @ js ''   '' @ src_preview s"
    by (auto simp: source_line_def ebind_eq_Inr)
  then show ?thesis
    using assms(2) by (auto simp: number_to_string_nat read_decimal_decimal)
qed

end
