(* ===== verification/Upstream.thy ===== *)
theory Upstream
  imports Config
begin

text \<open>
  The upstream retrieval client \<open>queryLlamaCloud\<close> (\<open>src/src/index.ts\<close>, lines 200--220).
  It makes one POST to the configured pipeline URL, checks the status, and parses the body.
  The network (\<open>node-fetch\<close>) is not modelled. Its answer to the request is an input:
  either the call fails (\<open>NetworkError\<close>, when \<open>fetch\<close> rejects) or a response arrives
  with a status, a status text and a body. The body is the value of \<open>response.json()\<close>,
  or \<open>None\<close> when it is not JSON.
\<close>

record http_request =
  req_url :: jstr
  req_method :: jstr
  req_headers :: "(jstr \<times> jstr) list"
  req_body :: jsval

datatype http_outcome = NetworkError | Response nat jstr "jsval option"

type_synonym network = "http_request \<Rightarrow> http_outcome"

text \<open>Lines 201--204: the body object, before \<open>JSON.stringify\<close>.\<close>

definition query_payload :: "jsval \<Rightarrow> jsval" where
  "query_payload q = JObj [(js ''query'', q), (js ''similarity_top_k'', JNum 5)]"

text \<open>Lines 206--213.\<close>

definition llamacloud_request :: "config \<Rightarrow> jsval \<Rightarrow> http_request" where
  "llamacloud_request c q =
     \<lparr>req_url = pipeline_url c, req_method = js ''POST'',
      req_headers = [(js ''Authorization'', js ''Bearer '' @ api_key c),
                     (js ''Content-Type'', js ''application/json'')],
      req_body = query_payload q\<rparr>"

text \<open>\<open>response.ok\<close>: the status is in the range 200--299.\<close>

definition response_ok :: "nat \<Rightarrow> bool" where
  "response_ok s \<longleftrightarrow> 200 \<le> s \<and> s \<le> 299"

text \<open>Lines 215--219.\<close>

fun handle_response :: "http_outcome \<Rightarrow> jsval res" where
  "handle_response NetworkError = Inl FetchFailed"
| "handle_response (Response s t b) =
     (if \<not> response_ok s then Inl (ApiError s t)
      else case b of None \<Rightarrow> Inl JsonSyntaxError | Some v \<Rightarrow> Inr v)"

text \<open>The errors of the upstream call: those of \<open>fetch\<close>, of the status check, of
  \<open>response.json()\<close>.\<close>

fun upstream_error :: "error \<Rightarrow> bool" where
  "upstream_error FetchFailed = True"
| "upstream_error (ApiError _ _) = True"
| "upstream_error JsonSyntaxError = True"
| "upstream_error _ = False"

definition query_llamacloud :: "network \<Rightarrow> config \<Rightarrow> jsval \<Rightarrow> jsval res" where
  "query_llamacloud net c q = handle_response (net (llamacloud_request c q))"

subsection \<open>Lemmas\<close>

lemma handle_response_Inr_iff:
  "handle_response r = Inr v \<longleftrightarrow> (\<exists>s t. r = Response s t (Some v) \<and> response_ok s)"
  by (cases r) (auto split: option.splits)

lemma query_llamacloud_Inr_iff:
  "query_llamacloud net c q = Inr v \<longleftrightarrow>
     (\<exists>s t. net (llamacloud_request c q) = Response s t (Some v) \<and> response_ok s)"
  by (simp add: query_llamacloud_def handle_response_Inr_iff)

lemma handle_response_Inl:
  "handle_response r = Inl e \<Longrightarrow>
     e = FetchFailed \<or> e = JsonSyntaxError \<or> (\<exists>s t. e = ApiError s t \<and> \<not> response_ok s)"
  by (cases r) (auto split: if_splits option.splits)

lemma query_llamacloud_upstream_error:
  "query_llamacloud net c q = Inl e \<Longrightarrow> upstream_error e"
  by (auto simp: query_llamacloud_def dest!: handle_response_Inl)

text \<open>C15: The client fails exactly in three ways: \<open>FetchFailed\<close> when the network call
  does not complete, \<open>LlamaCloud API error: status statusText\<close> on a status outside
  200--299, and a JSON syntax error on a 2xx body that is not JSON.\<close>

theorem query_llamacloud_errors:
  "query_llamacloud net c q = Inl e \<longleftrightarrow>
     (net (llamacloud_request c q) = NetworkError \<and> e = FetchFailed) \<or>
     (\<exists>s t b. net (llamacloud_request c q) = Response s t b \<and> \<not> (200 \<le> s \<and> s \<le> 299) \<and>
              e = ApiError s t) \<or>
     (\<exists>s t. net (llamacloud_request c q) = Response s t None \<and> 200 \<le> s \<and> s \<le> 299 \<and>
            e = JsonSyntaxError)"
  by (cases "net (llamacloud_request c q)")
     (auto simp: query_llamacloud_def response_ok_def split: option.splits)

end
