(* ===== verification/Dispatcher.thy ===== *)
theory Dispatcher
  imports Renderer Upstream
begin

text \<open>
  The three tool handlers \<open>queryRAG\<close>, \<open>searchDocuments\<close> and \<open>getIndexInfo\<close>
  (\<open>src/src/index.ts\<close>, lines 222--359), and the call-tool handler registered in
  \<open>setupHandlers\<close> (lines 112--142), which checks the arguments and dispatches by name.
  Each handler is the composition, in the sum monad, of the upstream call, the normalizer
  and the renderer. A thrown exception is the \<open>Inl\<close> branch. The \<open>try\<close>/\<open>catch\<close> of
  lines 120--141 only logs and rethrows, so it is the identity on results.
\<close>

text \<open>One item of the \<open>content\<close> array of a tool result: \<open>{type: "text", text}\<close>.\<close>

datatype content = Text jstr

text \<open>Lines 222--281. The log line 223 converts the question with \<open>ToString\<close> before
  the upstream call; its text goes to stderr and only its failure matters here.\<close>

definition query_rag :: "network \<Rightarrow> config \<Rightarrow> jsval \<Rightarrow> content list res" where
  "query_rag net c question =
     ebind (js_to_string question) (\<lambda>_.
     ebind (query_llamacloud net c question) (\<lambda>data.
     ebind (process_query data question) (\<lambda>r.
     ebind (render_query r) (\<lambda>t. Inr [Text t]))))"

text \<open>A default parameter (\<open>top_k: number = 5\<close>) replaces only \<open>undefined\<close>.\<close>

definition js_default :: "jsval \<Rightarrow> jsval \<Rightarrow> jsval" where
  "js_default v d = (if v = JUndef then d else v)"

text \<open>Lines 286--290: the request body that \<open>searchDocuments\<close> builds and never sends.\<close>

definition search_payload :: "jsval \<Rightarrow> jsval \<Rightarrow> jsval" where
  "search_payload q k =
     JObj [(js ''query'', q), (js ''similarity_top_k'', k), (js ''mode'', JStr (js ''retrieve_only''))]"

text \<open>Lines 283--334. The log line 284 converts the query and then \<open>top_k\<close> with
  \<open>ToString\<close>. The payload is computed as in the source, but the upstream call on line
  292 is \<open>queryLlamaCloud(query)\<close>, which does not use it.\<close>

definition search_documents :: "network \<Rightarrow> config \<Rightarrow> jsval \<Rightarrow> jsval \<Rightarrow> content list res" where
  "search_documents net c query top_k =
     (let k = js_default top_k (JNum 5)
      in ebind (js_to_string query) (\<lambda>_.
         ebind (js_to_string k) (\<lambda>_.
         let payload = search_payload query k
         in ebind (query_llamacloud net c query) (\<lambda>data.
            ebind (process_search data query) (\<lambda>r.
            ebind (render_search r) (\<lambda>t. Inr [Text t]))))))"

text \<open>Lines 336--359. \<open>now\<close> is \<open>new Date().toISOString()\<close> at the moment of the call.\<close>

definition get_index_info :: "config \<Rightarrow> jstr \<Rightarrow> content list res" where
  "get_index_info c now = Inr [Text (render_info (mk_index_info c now))]"

text \<open>Lines 112--142. \<open>args\<close> is \<open>request.params.arguments\<close>, \<open>undefined\<close> when absent.
  Destructuring reads \<open>question\<close>, or \<open>query\<close> and then \<open>top_k\<close>, from it.\<close>

definition call_tool :: "network \<Rightarrow> config \<Rightarrow> jstr \<Rightarrow> jstr \<Rightarrow> jsval \<Rightarrow> content list res" where
  "call_tool net c now name args =
     (if \<not> truthy args then Inl (NoArguments name)
      else if name = js ''query_rag'' then
        ebind (get_prop args K_question) (query_rag net c)
      else if name = js ''search_documents'' then
        ebind (get_prop args K_query) (\<lambda>q.
        ebind (get_prop args K_top_k) (search_documents net c q))
      else if name = js ''get_index_info'' then get_index_info c now
      else Inl (UnknownTool name))"

lemmas dispatcher_eval = query_rag_def search_documents_def get_index_info_def call_tool_def
  js_default_def search_payload_def

subsection \<open>Lemmas\<close>

lemma query_rag_Inr:
  "query_rag net c q = Inr cs \<longleftrightarrow>
     (\<exists>data r t. \<not> isl (js_to_string q) \<and> query_llamacloud net c q = Inr data \<and> process_query data q = Inr r \<and>
                render_query r = Inr t \<and> cs = [Text t])"
  by (cases "js_to_string q") (auto simp: query_rag_def ebind_eq_Inr)

lemma search_documents_Inr:
  "search_documents net c q k = Inr cs \<longleftrightarrow>
     (\<exists>data r t. \<not> isl (js_to_string q) \<and> \<not> isl (js_to_string (js_default k (JNum 5))) \<and>
                query_llamacloud net c q = Inr data \<and> process_search data q = Inr r \<and>
                render_search r = Inr t \<and> cs = [Text t])"
  by (cases "js_to_string q"; cases "js_to_string (js_default k (JNum 5))")
     (auto simp: search_documents_def ebind_eq_Inr)

lemma query_rag_upstream_Inl:
  "\<not> isl (js_to_string q) \<Longrightarrow> query_llamacloud net c q = Inl e \<Longrightarrow> query_rag net c q = Inl e"
  by (cases "js_to_string q") (simp_all add: query_rag_def)

lemma search_documents_upstream_Inl:
  "\<not> isl (js_to_string q) \<Longrightarrow> \<not> isl (js_to_string (js_default k (JNum 5))) \<Longrightarrow>
     query_llamacloud net c q = Inl e \<Longrightarrow> search_documents net c q k = Inl e"
  by (cases "js_to_string q"; cases "js_to_string (js_default k (JNum 5))")
     (simp_all add: search_documents_def)

lemma call_tool_truthy:
  "truthy args \<Longrightarrow> call_tool net c now name args =
     (if name = js ''query_rag'' then ebind (get_prop args K_question) (query_rag net c)
      else if name = js ''search_documents'' then
        ebind (get_prop args K_query) (\<lambda>q. ebind (get_prop args K_top_k) (search_documents net c q))
      else if name = js ''get_index_info'' then get_index_info c now
      else Inl (UnknownTool name))"
  by (simp add: call_tool_def)

lemma get_prop_truthy: "truthy v \<Longrightarrow> \<exists>x. get_prop v k = Inr x"
  by (cases "get_prop v k") (auto simp: get_prop_Inl_iff truthy_not_nullish)

lemma query_rag_Inl: "query_rag net c q = Inl e \<Longrightarrow> upstream_error e \<or> type_error e"
  by (auto simp: query_rag_def elim!: ebind_InlE dest: type_errors query_llamacloud_upstream_error)

lemma search_documents_Inl: "search_documents net c q k = Inl e \<Longrightarrow> upstream_error e \<or> type_error e"
  by (auto simp: search_documents_def elim!: ebind_InlE dest: type_errors query_llamacloud_upstream_error)

lemma call_tool_Inl:
  "call_tool net c now name args = Inl e \<Longrightarrow>
     (\<not> truthy args \<and> e = NoArguments name) \<or>
     (truthy args \<and> name \<notin> {js ''query_rag'', js ''search_documents'', js ''get_index_info''} \<and>
      e = UnknownTool name) \<or>
     upstream_error e \<or> type_error e"
  by (auto simp: call_tool_def get_index_info_def elim!: ebind_InlE split: if_splits
           dest: type_errors query_rag_Inl search_documents_Inl)

text \<open>C8: When \<open>request.params.arguments\<close> is falsy (absent, \<open>null\<close>, \<open>false\<close>, \<open>0\<close>
  or \<open>""\<close>), every tool call fails with \<open>No arguments provided for tool\<close>, whatever the
  name, before any routing.\<close>

theorem call_tool_no_arguments:
  "\<not> truthy args \<Longrightarrow> call_tool net c now name args = Inl (NoArguments name)"
  by (simp add: call_tool_def)

text \<open>C9: Once the logged arguments convert to strings, an error of the upstream client
  (network failure, non-2xx status, body that is not JSON) is the result of the
  \<open>query_rag\<close> and \<open>search_documents\<close> calls, unchanged: it is not caught and
  replaced by a degraded answer.\<close>

theorem call_tool_upstream_error:
  assumes "truthy args"
    and "name = js ''query_rag'' \<and> get_prop args K_question = Inr q \<and> \<not> isl (js_to_string q) \<or>
         name = js ''search_documents'' \<and> get_prop args K_query = Inr q \<and> \<not> isl (js_to_string q) \<and>
           \<not> isl (js_to_string (js_default (opt_get args K_top_k) (JNum 5)))"
    and "query_llamacloud net c q = Inl e"
  shows "call_tool net c now name args = Inl e"
proof -
  have "get_prop args K_top_k = Inr (opt_get args K_top_k)"
    using assms(1) by (simp add: get_prop_not_nullish truthy_not_nullish)
  with assms show ?thesis
    by (auto simp: call_tool_truthy query_rag_upstream_Inl search_documents_upstream_Inl js_def)
qed


text \<open>C14: A successful tool call returns exactly one content item, of type text.\<close>

theorem call_tool_single_text:
  "call_tool net c now name args = Inr cs \<Longrightarrow> \<exists>t. cs = [Text t]"
  by (auto simp: call_tool_def ebind_eq_Inr query_rag_Inr search_documents_Inr get_index_info_def
           split: if_splits)

end
