(* ===== verification/Catalog.thy ===== *)
theory Catalog
  imports JS_Core
begin

text \<open>
  The static tool catalog that \<open>getToolDefinitions\<close> returns (\<open>src/src/index.ts\<close>,
  lines 145--198). Each tool is a record of its name, its description and its input
  schema. The schema is the JSON Schema object literal of the source, as a \<open>jsval\<close>.
  The schema reader \<open>schema_properties\<close> lets the lemmas state which argument fields a
  tool declares.
\<close>

record tool =
  tool_name :: jstr
  tool_description :: jstr
  input_schema :: jsval

text \<open>Lines 147--163.\<close>

definition query_rag_tool :: tool where
  "query_rag_tool =
     \<lparr>tool_name = js ''query_rag'',
      tool_description = js ''Query the database documents in LlamaCloud and get comprehensive answers with sources'',
      input_schema = JObj
        [(js ''type'', JStr (js ''object'')),
         (js ''properties'', JObj
            [(js ''question'', JObj
               [(js ''type'', JStr (js ''string'')),
                (js ''description'', JStr (js ''Question about database concepts, management systems, or related topics'')),
                (js ''minLength'', JNum 1), (js ''maxLength'', JNum 1000)])]),
         (js ''required'', JArr [JStr (js ''question'')]),
         (js ''additionalProperties'', JBool False)]\<rparr>"

text \<open>Lines 164--187.\<close>

definition search_documents_tool :: tool where
  "search_documents_tool =
     \<lparr>tool_name = js ''search_documents'',
      tool_description = js ''Search for relevant documents in the knowledge base without generating an answer'',
      input_schema = JObj
        [(js ''type'', JStr (js ''object'')),
         (js ''properties'', JObj
            [(js ''query'', JObj
               [(js ''type'', JStr (js ''string'')),
                (js ''description'', JStr (js ''Search query for semantic document retrieval'')),
                (js ''minLength'', JNum 1), (js ''maxLength'', JNum 500)]),
             (js ''top_k'', JObj
               [(js ''type'', JStr (js ''number'')),
                (js ''description'', JStr (js ''Number of documents to return (1-10)'')),
                (js ''minimum'', JNum 1), (js ''maximum'', JNum 10), (js ''default'', JNum 5)])]),
         (js ''required'', JArr [JStr (js ''query'')]),
         (js ''additionalProperties'', JBool False)]\<rparr>"

text \<open>Lines 188--196.\<close>

definition get_index_info_tool :: tool where
  "get_index_info_tool =
     \<lparr>tool_name = js ''get_index_info'',
      tool_description = js ''Get detailed information about the LlamaCloud index and its current status'',
      input_schema = JObj
        [(js ''type'', JStr (js ''object'')),
         (js ''properties'', JObj []),
         (js ''additionalProperties'', JBool False)]\<rparr>"

text \<open>Lines 145--198.\<close>

definition tool_definitions :: "tool list" where
  "tool_definitions = [query_rag_tool, search_documents_tool, get_index_info_tool]"

subsection \<open>Reading a schema\<close>

text \<open>Member lookup in an object literal: the last duplicate wins, as in \<open>get_prop\<close>.\<close>

definition member :: "jsval \<Rightarrow> jstr \<Rightarrow> jsval" where
  "member v k = (case v of JObj kvs \<Rightarrow> (case map_of (rev kvs) k of Some x \<Rightarrow> x | None \<Rightarrow> JUndef)
                          | _ \<Rightarrow> JUndef)"

definition obj_keys :: "jsval \<Rightarrow> jstr list" where
  "obj_keys v = (case v of JObj kvs \<Rightarrow> map fst kvs | _ \<Rightarrow> [])"

definition schema_properties :: "tool \<Rightarrow> jstr list" where
  "schema_properties t = obj_keys (member (input_schema t) (js ''properties''))"

lemmas catalog_eval = tool_definitions_def query_rag_tool_def search_documents_tool_def
  get_index_info_tool_def schema_properties_def member_def obj_keys_def

subsection \<open>Lemmas\<close>

lemma tool_names:
  "tool_name query_rag_tool = js ''query_rag''"
  "tool_name search_documents_tool = js ''search_documents''"
  "tool_name get_index_info_tool = js ''get_index_info''"
  by (simp_all add: query_rag_tool_def search_documents_tool_def get_index_info_tool_def)

text \<open>The argument fields each tool declares.\<close>

lemma schema_properties_tools:
  "schema_properties query_rag_tool = [key_name K_question]"
  "schema_properties search_documents_tool = [key_name K_query, key_name K_top_k]"
  "schema_properties get_index_info_tool = []"
  by (simp_all add: catalog_eval js_lit)

end
