(* ===== verification/Server.thy ===== *)
theory Server
  imports Dispatcher Catalog
begin

text \<open>
  The server process (\<open>src/src/index.ts\<close>, lines 38--80, 82--143, 361--389).
  \<^item> The constructor loads the configuration. It exits with status 1 when the
    configuration is incomplete, and otherwise registers the handlers.
  \<^item> \<open>run\<close> probes the upstream once and connects the stdio transport. The probe's result,
    success or failure, is only logged. A failure to connect exits with status 1.
  \<^item> The server then answers requests. It holds no state besides the configuration,
    and a failed call fails only that call.

  The lifecycle is the inductive step relation \<open>step\<close> over \<open>server_state\<close>, labelled by
  \<open>event\<close>s. \<open>steps\<close> is its closure over a list of events. \<open>step_fun\<close> is the same
  relation as an executable function.
\<close>

datatype request = Initialize | ListTools | CallTool jstr jsval

datatype response = InitResult jsval | ToolList "tool list" | CallResult "content list"

text \<open>Lines 87--99.\<close>

definition init_result :: jsval where
  "init_result = JObj
     [(js ''protocolVersion'', JStr (js ''2024-11-05'')),
      (js ''capabilities'', JObj [(js ''tools'', JObj [(js ''listChanged'', JBool True),
                                                   (js ''supportsProgress'', JBool False)])]),
      (js ''serverInfo'', JObj [(js ''name'', JStr (js ''llamacloud-rag-server'')),
                                (js ''version'', JStr (js ''1.0.0''))])]"

text \<open>The three handlers registered by \<open>setupHandlers\<close> (lines 84--142).\<close>

fun handle_request :: "network \<Rightarrow> config \<Rightarrow> jstr \<Rightarrow> request \<Rightarrow> response res" where
  "handle_request net c now Initialize = Inr (InitResult init_result)"
| "handle_request net c now ListTools = Inr (ToolList tool_definitions)"
| "handle_request net c now (CallTool name args) =
     ebind (call_tool net c now name args) (\<lambda>cs. Inr (CallResult cs))"

datatype server_state = Boot env | Constructed config | Serving config | Exited nat

text \<open>\<open>Run net ok\<close> is one execution of \<open>run\<close>: \<open>net\<close> answers the probe and \<open>ok\<close> tells
  whether \<open>server.connect\<close> resolves. \<open>Serve net now req resp\<close> is one request,
  answered with \<open>resp\<close>.\<close>

datatype event = Construct | Run network bool | Serve network jstr request "response res"

text \<open>The probe of line 367. Its value is discarded by the \<open>try\<close>/\<open>catch\<close> of 366--371.\<close>

definition probe :: "network \<Rightarrow> config \<Rightarrow> jsval res" where
  "probe net c = query_llamacloud net c (JStr (js ''test connection''))"

inductive step :: "server_state \<Rightarrow> event \<Rightarrow> server_state \<Rightarrow> bool" where
  construct_ok: "config_ok (load_config e) \<Longrightarrow> step (Boot e) Construct (Constructed (load_config e))"
| construct_exit: "\<not> config_ok (load_config e) \<Longrightarrow> step (Boot e) Construct (Exited 1)"
| run_ok: "step (Constructed c) (Run net True) (Serving c)"
| run_exit: "step (Constructed c) (Run net False) (Exited 1)"
| serve: "resp = handle_request net c now req \<Longrightarrow> step (Serving c) (Serve net now req resp) (Serving c)"

inductive steps :: "server_state \<Rightarrow> event list \<Rightarrow> server_state \<Rightarrow> bool" where
  steps_nil: "steps s [] s"
| steps_cons: "step s ev s' \<Longrightarrow> steps s' evs s'' \<Longrightarrow> steps s (ev # evs) s''"

text \<open>The same transitions as a function, for evaluation. The probe is computed and then
  ignored, as in the source.\<close>

fun step_fun :: "server_state \<Rightarrow> event \<Rightarrow> server_state option" where
  "step_fun (Boot e) Construct =
     Some (if config_ok (load_config e) then Constructed (load_config e) else Exited 1)"
| "step_fun (Constructed c) (Run net ok) =
     (let _ = probe net c in Some (if ok then Serving c else Exited 1))"
| "step_fun (Serving c) (Serve net now req resp) =
     (if resp = handle_request net c now req then Some (Serving c) else None)"
| "step_fun _ _ = None"

text \<open>What the server does to one served event.\<close>

fun served :: "config \<Rightarrow> event \<Rightarrow> bool" where
  "served c (Serve net now req resp) \<longleftrightarrow> resp = handle_request net c now req"
| "served c _ \<longleftrightarrow> False"

text \<open>The invariant of every state reachable from \<open>Boot e\<close>.\<close>

fun boot_inv :: "env \<Rightarrow> server_state \<Rightarrow> bool" where
  "boot_inv e (Boot e') \<longleftrightarrow> e' = e"
| "boot_inv e (Constructed c) \<longleftrightarrow> c = load_config e \<and> config_ok c"
| "boot_inv e (Serving c) \<longleftrightarrow> c = load_config e \<and> config_ok c"
| "boot_inv e (Exited k) \<longleftrightarrow> k = 1"

subsection \<open>Lemmas\<close>

inductive_simps step_simps: "step s ev s'"
inductive_cases step_ServingE: "step (Serving c) ev s'"
inductive_cases step_ExitedE: "step (Exited k) ev s'"
inductive_cases steps_consE: "steps s (ev # evs) s''"
inductive_cases steps_nilE: "steps s [] s'"
inductive_cases step_ServeE: "step s (Serve net now req resp) s'"

lemma step_fun_sound: "step s ev s' \<longleftrightarrow> step_fun s ev = Some s'"
proof
  assume "step s ev s'"
  then show "step_fun s ev = Some s'" by induction auto
next
  assume "step_fun s ev = Some s'"
  then show "step s ev s'"
    by (induction s ev rule: step_fun.induct)
       (auto simp: Let_def step_simps split: if_splits)
qed

lemma step_boot_inv: "step s ev s' \<Longrightarrow> boot_inv e s \<Longrightarrow> boot_inv e s'"
  by (induction rule: step.induct) auto

lemma steps_boot_inv: "steps s evs s' \<Longrightarrow> boot_inv e s \<Longrightarrow> boot_inv e s'"
  by (induction rule: steps.induct) (auto dest: step_boot_inv)

lemma steps_append:
  "steps s evs s' \<Longrightarrow> steps s' evs' s'' \<Longrightarrow> steps s (evs @ evs') s''"
  by (induction rule: steps.induct) (auto intro: steps.intros)

lemma steps_Serving:
  "steps (Serving c) evs s \<Longrightarrow> s = Serving c \<and> list_all (served c) evs"
proof (induction "Serving c" evs s rule: steps.induct)
  case steps_nil then show ?case by simp
next
  case (steps_cons ev s' evs s'')
  then show ?case by (auto elim: step_ServingE)
qed

lemma steps_append_D:
  "steps s (evs @ evs') s'' \<Longrightarrow> \<exists>s'. steps s evs s' \<and> steps s' evs' s''"
proof (induction evs arbitrary: s)
  case Nil then show ?case by (auto intro: steps.intros)
next
  case (Cons ev evs)
  from Cons.prems obtain s1 where "step s ev s1" and "steps s1 (evs @ evs') s''"
    by (auto elim: steps_consE)
  with Cons.IH show ?case by (blast intro: steps.intros)
qed

text \<open>C17: Whatever happened before, a serving server holds the configuration loaded from
  the environment at construction, and that configuration is complete.\<close>

theorem boot_serving_config:
  "steps (Boot e) evs (Serving c) \<Longrightarrow> c = load_config e \<and> config_ok c"
proof -
  assume "steps (Boot e) evs (Serving c)"
  then have "boot_inv e (Serving c)" by (rule steps_boot_inv) simp
  then show ?thesis by auto
qed

text \<open>C18: Every request, at any point of any run, is answered as a function of the request,
  the network's answer, the clock and the boot configuration only. Earlier requests, failed
  ones included, change nothing.\<close>

theorem served_statelessly:
  "steps (Boot e) (evs1 @ Serve net now req resp # evs2) s \<Longrightarrow>
     resp = handle_request net (load_config e) now req"
proof -
  assume "steps (Boot e) (evs1 @ Serve net now req resp # evs2) s"
  then obtain s1 s2 where run: "steps (Boot e) evs1 s1"
      and st: "step s1 (Serve net now req resp) s2"
    by (auto dest!: steps_append_D elim!: steps_consE)
  from st obtain c where "s1 = Serving c" and "resp = handle_request net c now req"
    by (auto elim: step_ServeE)
  moreover from run have "boot_inv e s1" by (rule steps_boot_inv) simp
  ultimately show ?thesis by simp
qed

text \<open>C19: With a complete configuration the server reaches the serving state whatever the
  start-up probe returns, a network failure or an error status included: the probe only
  logs a warning.\<close>

theorem probe_never_blocks:
  "config_ok (load_config e) \<Longrightarrow> steps (Boot e) [Construct, Run net True] (Serving (load_config e))"
  by (auto intro!: steps.intros step.intros)

text \<open>C20: With an incomplete configuration the process never serves: it exits with
  status 1 at construction.\<close>

theorem misconfigured_never_serves:
  assumes "\<not> config_ok (load_config e)" and "steps (Boot e) evs s"
  shows "s = Boot e \<or> s = Exited 1"
proof -
  have "boot_inv e s" using steps_boot_inv [OF assms(2)] by simp
  with assms(1) show ?thesis by (cases s) auto
qed

end
