(* ===== verification/Normalizer_Spec.thy ===== *)
theory Normalizer_Spec
  imports Normalizer
begin

text \<open>
  The specification's model of \<open>normalizeForAnswer\<close> (\<open>spec.md\<close>, sections 4.2 and 9),
  and the refinement of it by \<open>process_query\<close>. The spec classifies the payload into one of
  three shapes (\<open>payload_shape\<close>, its tagged union of section 9) and normalizes each shape by
  an exhaustive match: \<open>shape_of\<close> is its decision table, \<open>spec_normalize\<close> the normalized
  result, in which file names are strings and scores are numbers. The fallback rules of
  section 4.2 (file name, then filename, then \<open>Document n\<close>; text, then content, then the
  empty string; the answer field, then response, then the sentinel) are \<open>first_str\<close>.

  \<open>abs_result\<close> maps the code's \<open>query_result\<close> to the spec's record, reading the file
  name and the answer as the strings they are on a well-formed payload. On a well-formed payload
  (\<open>wf_payload\<close>: an object whose fields that the code reads as strings are strings when
  truthy, whose scores are numbers when truthy, whose source lists are arrays when truthy and
  whose items are not \<open>null\<close>), \<open>process_query\<close> succeeds and its result abstracts to
  \<open>spec_normalize\<close>.
\<close>

datatype payload_shape = NewFormat "jsval list" | LegacyFormat | Unrecognized

record spec_source =
  ss_id :: nat
  ss_filename :: jstr
  ss_score :: rat
  ss_preview :: jstr

record spec_result =
  sq_answer :: jstr
  sq_sources :: "spec_source list"
  sq_total :: nat
  sq_query :: jsval

subsection \<open>The specification\<close>

text \<open>The first field, in priority order, that is a non-empty string; else the default.\<close>

fun first_str :: "jsval list \<Rightarrow> jstr \<Rightarrow> jstr" where
  "first_str [] d = d"
| "first_str (JStr s # vs) d = (if s \<noteq> [] then s else first_str vs d)"
| "first_str (_ # vs) d = first_str vs d"

definition spec_filename :: "nat \<Rightarrow> jsval \<Rightarrow> jstr" where
  "spec_filename i n =
     first_str [opt_get (opt_get n K_metadata) K_file_name, opt_get (opt_get n K_metadata) K_filename]
       (js ''Document '' @ decimal (Suc i))"

definition spec_text :: "jsval \<Rightarrow> jstr" where
  "spec_text n = first_str [opt_get n K_text, opt_get n K_content] []"

definition spec_score :: "jsval \<Rightarrow> rat" where
  "spec_score n = (case opt_get n K_score of JNum x \<Rightarrow> x | _ \<Rightarrow> 0)"

definition spec_source :: "nat \<Rightarrow> jsval \<Rightarrow> spec_source" where
  "spec_source i n =
     \<lparr>ss_id = Suc i, ss_filename = spec_filename i n, ss_score = spec_score n,
      ss_preview = take 150 (spec_text n) @ js ''...''\<rparr>"

definition spec_sources :: "jsval list \<Rightarrow> spec_source list" where
  "spec_sources ns = map2 spec_source [0..<length ns] ns"

definition spec_answer :: "jsval list \<Rightarrow> jstr" where
  "spec_answer ns =
     (let cs = take 3 (filter (\<lambda>t. \<exists>c\<in>set t. \<not> js_ws c) (map spec_text ns))
      in if cs = [] then []
         else js ''Based on the found documents:'' @ nl @ nl @ join (nl @ nl @ js ''---'' @ nl @ nl) cs)"

definition legacy_nodes :: "jsval \<Rightarrow> jsval list" where
  "legacy_nodes data =
     (case opt_get data K_source_nodes of JArr ns \<Rightarrow> ns
      | _ \<Rightarrow> (case opt_get data K_sources of JArr ns \<Rightarrow> ns | _ \<Rightarrow> []))"

definition spec_legacy_answer :: "jsval \<Rightarrow> jstr" where
  "spec_legacy_answer data =
     first_str [opt_get data K_answer, opt_get data K_response] (js ''No answer received.'')"

definition shape_of :: "jsval \<Rightarrow> payload_shape" where
  "shape_of data =
     (case opt_get data K_retrieval_nodes of
        JArr items \<Rightarrow> NewFormat (filter truthy (map (\<lambda>it. opt_get it K_node) items))
      | _ \<Rightarrow> if list_ex truthy [opt_get data K_answer, opt_get data K_response,
                              opt_get data K_source_nodes, opt_get data K_sources]
            then LegacyFormat else Unrecognized)"

definition spec_normalize :: "jsval \<Rightarrow> jsval \<Rightarrow> spec_result" where
  "spec_normalize data q =
     (case shape_of data of
        NewFormat ns \<Rightarrow>
          \<lparr>sq_answer = spec_answer ns, sq_sources = spec_sources ns, sq_total = length ns, sq_query = q\<rparr>
      | LegacyFormat \<Rightarrow>
          \<lparr>sq_answer = spec_legacy_answer data, sq_sources = spec_sources (legacy_nodes data),
           sq_total = length (legacy_nodes data), sq_query = q\<rparr>
      | Unrecognized \<Rightarrow>
          \<lparr>sq_answer = js ''No answer received.'', sq_sources = [], sq_total = 0, sq_query = q\<rparr>)"

subsection \<open>Abstraction and well-formed payloads\<close>

definition num_of :: "jsval \<Rightarrow> rat" where
  "num_of v = (case v of JNum x \<Rightarrow> x | _ \<Rightarrow> 0)"

definition abs_source :: "source \<Rightarrow> spec_source" where
  "abs_source s =
     \<lparr>ss_id = src_id s, ss_filename = str_of (src_filename s), ss_score = num_of (src_score s),
      ss_preview = src_preview s\<rparr>"

definition abs_result :: "query_result \<Rightarrow> spec_result" where
  "abs_result r =
     \<lparr>sq_answer = str_of (qr_answer r), sq_sources = map abs_source (qr_sources r),
      sq_total = qr_total_sources r, sq_query = qr_query r\<rparr>"

definition ok_str :: "jsval \<Rightarrow> bool" where
  "ok_str v \<longleftrightarrow> \<not> truthy v \<or> is_str v"

definition is_num :: "jsval \<Rightarrow> bool" where
  "is_num v = (case v of JNum _ \<Rightarrow> True | _ \<Rightarrow> False)"

definition is_arr :: "jsval \<Rightarrow> bool" where
  "is_arr v = (case v of JArr _ \<Rightarrow> True | _ \<Rightarrow> False)"

definition wf_node :: "jsval \<Rightarrow> bool" where
  "wf_node n \<longleftrightarrow> \<not> nullish n \<and> ok_str (opt_get n K_text) \<and> ok_str (opt_get n K_content) \<and>
     ok_str (opt_get (opt_get n K_metadata) K_file_name) \<and>
     ok_str (opt_get (opt_get n K_metadata) K_filename) \<and>
     (\<not> truthy (opt_get n K_score) \<or> is_num (opt_get n K_score))"

definition wf_nodes :: "jsval list \<Rightarrow> bool" where
  "wf_nodes ns \<longleftrightarrow> list_all wf_node ns \<and> length ns < 10 ^ 15"

definition wf_payload :: "jsval \<Rightarrow> bool" where
  "wf_payload data \<longleftrightarrow>
     (case data of
        JObj _ \<Rightarrow>
          (case opt_get data K_retrieval_nodes of
             JArr items \<Rightarrow> list_all (\<lambda>it. \<not> nullish it) items \<and> wf_nodes (node_list items)
           | _ \<Rightarrow> ok_str (opt_get data K_answer) \<and> ok_str (opt_get data K_response) \<and>
                 (\<not> truthy (opt_get data K_source_nodes) \<or> is_arr (opt_get data K_source_nodes)) \<and>
                 (\<not> truthy (opt_get data K_sources) \<or> is_arr (opt_get data K_sources)) \<and>
                 wf_nodes (legacy_nodes data))
      | _ \<Rightarrow> False)"

subsection \<open>Refinement\<close>

lemma first_str2:
  assumes "ok_str a" and "ok_str b"
  shows "js_or a (js_or b (JStr d)) = JStr (first_str [a, b] d)"
  using assms by (cases a; cases b) (auto simp: ok_str_def is_str_def js_or_def)

lemma first_str_falsy: "list_all (\<lambda>v. \<not> truthy v) vs \<Longrightarrow> first_str vs d = d"
  by (induction vs d rule: first_str.induct) simp_all

lemma text_value_spec: "wf_node n \<Longrightarrow> text_value n = JStr (spec_text n)"
  by (simp add: wf_node_def text_value_def spec_text_def first_str2)

lemma node_score_spec:
  "wf_node n \<Longrightarrow> num_of (js_or (opt_get n K_score) (JNum 0)) = spec_score n"
  by (cases "opt_get n K_score") (auto simp: wf_node_def is_num_def js_or_def num_of_def spec_score_def)

lemma make_source_spec:
  assumes "wf_node n" and "Suc i < 10 ^ 15"
  shows "make_source i n = Inr (source_of i n (spec_text n))
         \<and> abs_source (source_of i n (spec_text n)) = spec_source i n"
proof
  have "\<not> nullish n" using assms(1) by (simp add: wf_node_def)
  then show "make_source i n = Inr (source_of i n (spec_text n))"
    using assms(1) by (simp add: make_source_ok node_text_eq text_value_spec)
  have f: "fallback_name i (opt_get n K_metadata) = JStr (spec_filename i n)"
    using assms by (simp add: fallback_name_def spec_filename_def wf_node_def first_str2
                   number_to_string_nat del: of_nat_Suc)
  show "abs_source (source_of i n (spec_text n)) = spec_source i n"
    using assms(1) by (simp add: abs_source_def source_of_def spec_source_def f node_score_spec)
qed

lemma make_sources_spec:
  assumes "wf_nodes ns"
  shows "\<exists>ss. map_idx_res make_source ns = Inr ss \<and> map abs_source ss = spec_sources ns"
proof -
  have each: "\<And>i. i < length ns \<Longrightarrow> make_source i (ns ! i) = Inr (source_of i (ns ! i) (spec_text (ns ! i)))
      \<and> abs_source (source_of i (ns ! i) (spec_text (ns ! i))) = spec_source i (ns ! i)"
    using assms by (intro make_source_spec) (auto simp: wf_nodes_def list_all_length)
  have "map_idx_res make_source ns =
      Inr (map2 (\<lambda>i n. source_of i n (spec_text n)) [0..<length ns] ns)"
    using each by (intro map_idx_res_ok) blast
  moreover have "map abs_source (map2 (\<lambda>i n. source_of i n (spec_text n)) [0..<length ns] ns)
      = spec_sources ns"
    using each by (intro nth_equalityI) (simp_all add: spec_sources_def del: upt_Suc)
  ultimately show ?thesis by blast
qed

lemma new_format_answer_spec_eq:
  "wf_nodes ns \<Longrightarrow> new_format_answer ns = Inr (JStr (spec_answer ns))"
proof -
  assume w: "wf_nodes ns"
  then have ok: "\<forall>n\<in>set ns. \<not> nullish n \<and> is_str (text_value n)"
    by (auto simp: wf_nodes_def list_all_iff text_value_spec is_str_def wf_node_def)
  from w have "map (\<lambda>n. str_of (text_value n)) ns = map spec_text ns"
    by (auto simp: wf_nodes_def list_all_iff text_value_spec)
  with new_format_answer_eq [OF ok] show ?thesis
    by (simp add: spec_answer_def answer_text_def Let_def)
qed

lemma legacy_answer_spec:
  assumes "\<not> nullish data" "ok_str (opt_get data K_answer)" "ok_str (opt_get data K_response)"
  shows "legacy_answer data = Inr (JStr (spec_legacy_answer data))"
proof -
  have "legacy_answer data =
      Inr (js_or (opt_get data K_answer) (js_or (opt_get data K_response) (JStr (js ''No answer received.''))))"
    using assms(1) by (simp add: legacy_answer_def get_prop_not_nullish js_or_def)
  then show ?thesis using assms(2,3) by (simp add: first_str2 spec_legacy_answer_def)
qed

lemma legacy_list_spec:
  assumes "\<not> nullish data"
    and "\<not> truthy (opt_get data K_source_nodes) \<or> is_arr (opt_get data K_source_nodes)"
    and "\<not> truthy (opt_get data K_sources) \<or> is_arr (opt_get data K_sources)"
  shows "legacy_list data = Inr (JArr (legacy_nodes data))"
  using assms
  by (cases "opt_get data K_source_nodes"; cases "opt_get data K_sources")
     (simp_all add: legacy_list_def get_prop_not_nullish legacy_nodes_def is_arr_def js_or_def)

lemma shape_legacy:
  assumes "\<forall>xs. opt_get data K_retrieval_nodes \<noteq> JArr xs"
    and "\<not> truthy (opt_get data K_source_nodes) \<or> is_arr (opt_get data K_source_nodes)"
    and "\<not> truthy (opt_get data K_sources) \<or> is_arr (opt_get data K_sources)"
  shows "spec_normalize data q =
     \<lparr>sq_answer = spec_legacy_answer data, sq_sources = spec_sources (legacy_nodes data),
      sq_total = length (legacy_nodes data), sq_query = q\<rparr>"
proof (cases "list_ex truthy [opt_get data K_answer, opt_get data K_response,
                             opt_get data K_source_nodes, opt_get data K_sources]")
  case True
  with assms(1) show ?thesis
    by (cases "opt_get data K_retrieval_nodes") (simp_all add: spec_normalize_def shape_of_def)
next
  case False
  then have "legacy_nodes data = []" and "spec_legacy_answer data = js ''No answer received.''"
    by (auto simp: legacy_nodes_def spec_legacy_answer_def first_str_falsy split: jsval.splits)
  with False assms(1) show ?thesis
    by (cases "opt_get data K_retrieval_nodes") (simp_all add: spec_normalize_def shape_of_def spec_sources_def)
qed

text \<open>C29: \<open>process_query\<close> refines the spec's normalizer: on every well-formed payload it
  succeeds, and its result, read through the abstraction, is the spec's decision table
  applied to the payload. A new-format payload gives the kept nodes' answer and sources; any
  other payload gives the legacy answer (or the sentinel) and the legacy list (or none).\<close>

theorem process_query_refines_spec:
  assumes "wf_payload data"
  shows "\<exists>r. process_query data q = Inr r \<and> abs_result r = spec_normalize data q"
proof -
  obtain kvs where obj: "data = JObj kvs" using assms by (cases data) (simp_all add: wf_payload_def)
  then have nn: "\<not> nullish data" by (simp add: nullish_def)
  then have rn: "get_prop data K_retrieval_nodes = Inr (opt_get data K_retrieval_nodes)"
    by (rule get_prop_not_nullish)
  show ?thesis
  proof (cases "\<exists>items. opt_get data K_retrieval_nodes = JArr items")
    case True
    then obtain items where items: "opt_get data K_retrieval_nodes = JArr items" by blast
    with assms obj have it: "\<forall>it\<in>set items. \<not> nullish it" and w: "wf_nodes (node_list items)"
      by (simp_all add: wf_payload_def list_all_iff)
    obtain ss where ss: "map_idx_res make_source (node_list items) = Inr ss"
        and abs: "map abs_source ss = spec_sources (node_list items)"
      using make_sources_spec [OF w] by blast
    have len: "length ss = length (node_list items)"
      using ss by (simp add: map_idx_res_Inr_iff)
    have "process_query data q =
        Inr (mk_query_result (JStr (spec_answer (node_list items))) ss q)"
      using rn items by (simp add: process_query_def extract_nodes_ok [OF it]
                          new_format_answer_spec_eq [OF w] ss)
    moreover have "abs_result (mk_query_result (JStr (spec_answer (node_list items))) ss q) =
        spec_normalize data q"
      using items abs len
      by (simp add: abs_result_def mk_query_result_def spec_normalize_def shape_of_def node_list_def)
    ultimately show ?thesis by blast
  next
    case False
    then have nr: "\<forall>xs. opt_get data K_retrieval_nodes \<noteq> JArr xs" by blast
    with assms obj have a: "ok_str (opt_get data K_answer)" "ok_str (opt_get data K_response)"
      and l: "\<not> truthy (opt_get data K_source_nodes) \<or> is_arr (opt_get data K_source_nodes)"
             "\<not> truthy (opt_get data K_sources) \<or> is_arr (opt_get data K_sources)"
      and w: "wf_nodes (legacy_nodes data)"
      by (auto simp: wf_payload_def split: jsval.splits)
    obtain ss where ss: "map_idx_res make_source (legacy_nodes data) = Inr ss"
        and abs: "map abs_source ss = spec_sources (legacy_nodes data)"
      using make_sources_spec [OF w] by blast
    have len: "length ss = length (legacy_nodes data)"
      using ss by (simp add: map_idx_res_Inr_iff)
    have "process_query data q =
        Inr (mk_query_result (JStr (spec_legacy_answer data)) ss q)"
      by (simp add: process_query_legacy_eq [OF rn nr] legacy_answer_spec [OF nn a]
                    legacy_list_spec [OF nn l] js_map_idx_def ss)
    moreover have "abs_result (mk_query_result (JStr (spec_legacy_answer data)) ss q) =
        spec_normalize data q"
      using abs len by (simp add: abs_result_def mk_query_result_def shape_legacy [OF nr l])
    ultimately show ?thesis by blast
  qed
qed

end
