(* ===== verification/Spec2Isabelle.thy ===== *)
theory Spec2Isabelle
  imports Server Normalizer_Spec
begin

text \<open>
  Verification development of the LlamaCloud RAG MCP server, the single TypeScript file
  \<open>src/src/index.ts\<close> (class \<open>LlamaCloudMCPServer\<close>).

  \<^bold>\<open>The program.\<close> The constructor reads the configuration from the environment and
  exits when the API key, the organization id or the pipeline URL is missing.
  \<open>setupHandlers\<close> registers three MCP request handlers: initialize, list tools and call
  tool. The call-tool handler checks the arguments and dispatches by name to
  \<open>queryRAG\<close>, \<open>searchDocuments\<close> and \<open>getIndexInfo\<close>. The first two call
  \<open>queryLlamaCloud\<close> (one POST to the pipeline URL), normalize the JSON payload into
  sources or documents, and render one Markdown text. \<open>getIndexInfo\<close> renders the
  configuration. \<open>run\<close> probes the upstream once (a failure only logs a warning) and
  connects the stdio transport.

  \<^bold>\<open>The model.\<close> Each theory models one part and imports the parts it uses.
  \<^item> \<open>JS_Core\<close> (prelude) holds the language's semantics, which are not lines of the
    program and so are not in the manifest's map:
    \<^item> JavaScript values as the datatype \<open>jsval\<close>. Numbers are finite doubles held
      exactly as \<open>rat\<close>. Strings are lists of UTF-16 code units (\<open>16 word\<close>). Objects
      are association lists whose last duplicate member wins, as after \<open>JSON.parse\<close>.
    \<^item> truthiness, \<open>||\<close>, and the property reads \<open>v.k\<close> and \<open>v?.k\<close>;
    \<^item> the datatype \<open>error\<close> of everything a call can throw, with results in
      \<open>error + 'a\<close>;
    \<^item> the fallible \<open>map\<close> and \<open>filter\<close> (the first exception wins), \<open>trim\<close>,
      \<open>join\<close> and decimal digits.
  \<^item> \<open>JS_Number\<close> models \<open>Number::toString\<close>: the shortest decimal that rounds back
    to the double, with ties to even. It also models \<open>toFixed\<close>, and \<open>ToString\<close> of
    every JSON value as a fallible operation: an object with an own \<open>toString\<close> member
    has no primitive value and the conversion throws a \<open>TypeError\<close>, at any depth of
    arrays. It proves that \<open>toFixed\<close> yields an integer part, a point and exactly the
    requested number of digits (\<open>to_fixed_digits\<close>), and that naturals below \<open>10^15\<close>
    print as their decimal digits (\<open>number_to_string_nat\<close>).
  \<^item> \<open>Normalizer\<close> models lines 227--269 of \<open>queryRAG\<close> (\<open>process_query\<close>) and
    294--322 of \<open>searchDocuments\<close> (\<open>process_search\<close>), with the per-node callbacks
    (\<open>make_source\<close>, \<open>make_document\<close>) and the field fallbacks they share.
  \<^item> \<open>Normalizer_Spec\<close> holds the specification's three-shape decision table for the
    answer normalizer, and its refinement by \<open>process_query\<close>.
  \<^item> \<open>Renderer\<close> models the three text templates (lines 277, 330 and 355). Their
    substitutions are evaluated and converted left to right, so the first conversion
    that throws decides the error. \<open>score?.toFixed(2) || 'n/a'\<close> is \<open>score_text\<close>.
  \<^item> \<open>Config\<close> models the constructor's configuration (lines 38--57).
  \<^item> \<open>Upstream\<close> models \<open>queryLlamaCloud\<close> (lines 200--220). The network is a
    parameter, \<open>network = http_request \<Rightarrow> http_outcome\<close>.
  \<^item> \<open>Dispatcher\<close> models the three handlers and the call-tool switch (lines
    112--142, 222--359), composed in the sum monad. The log lines 223 and 284 convert the
    question, query and \<open>top_k\<close> with \<open>ToString\<close> before the upstream call; their text
    goes to stderr, but a failing conversion fails the call, so it is modelled.
  \<^item> \<open>Catalog\<close> models \<open>getToolDefinitions\<close> (lines 145--198).
  \<^item> \<open>Server\<close> models the request handlers of \<open>setupHandlers\<close>, and the process as
    the inductive step relation \<open>step\<close> over \<open>server_state\<close> (boot, constructed,
    serving, exited). The relation is labelled by events that carry the inputs: the
    network, whether connect succeeds, the clock and the request. It is executable as
    \<open>step_fun\<close>.

  \<^bold>\<open>What is proved.\<close> Each claim Cn is stated, with its meaning in a text block,
  next to its theorem.
  \<^item> Normalizer (C1--C7, C23, C25--C27):
    \<^item> ids are \<open>1..n\<close> and the total is \<open>n\<close>;
    \<^item> the new-format sources, answer and previews are exact;
    \<^item> a \<open>null\<close> item throws;
    \<^item> the legacy fallbacks hold, and a non-array legacy list throws;
    \<^item> \<open>searchDocuments\<close> agrees with \<open>queryRAG\<close> node by node, lists every legacy
      source node with no local limit, and ignores \<open>sources\<close>;
    \<^item> the \<open>Document n\<close> fallback name is printed in decimal.
  \<^item> C29 is the refinement: on well-formed payloads \<open>process_query\<close> implements the
    spec's decision table.
  \<^item> Renderer (C11--C13, C24, C28):
    \<^item> normalized scores print with two decimals, and never as \<open>n/a\<close>; a falsy score
      gives the line with \<open>relevance: 0.00\<close>;
    \<^item> rendering throws exactly when the answer or a file name does not convert to a
      string, or a score is not numeric;
    \<^item> ids read back from the text.
  \<^item> Dispatcher and upstream (C8--C10, C14, C15):
    \<^item> falsy arguments are rejected;
    \<^item> upstream errors propagate unchanged once the logged arguments convert;
    \<^item> \<open>top_k\<close> has no effect on the search;
    \<^item> every successful result is one text item;
    \<^item> the three ways the client fails.
  \<^item> Configuration and lifecycle (C16--C20):
    \<^item> when the constructor proceeds;
    \<^item> a serving server always holds its boot configuration;
    \<^item> requests are answered statelessly;
    \<^item> the probe never blocks start-up;
    \<^item> a misconfigured process never serves.
  \<^item> In this theory (C21, C22, C30):
    \<^item> unknown names are rejected against the catalog;
    \<^item> a catalog tool reads only the argument fields its schema declares;
    \<^item> the error taxonomy: a call fails only with missing arguments, an unknown name
      outside the catalog, an upstream error, or an engine TypeError. For the last, every
      fallible operation contributes a rule to the collection \<open>type_errors\<close> of the
      prelude.
  The scenario payloads of the specification (the \<open>intro.pdf\<close> node, five legacy
  chunks, a string score) serve as the witnesses of these claims.

  \<^bold>\<open>Bounds.\<close> No loop of the program is unbounded: every traversal is over a finite
  payload, and \<open>ToString\<close> recurses on the structure of the value. The
  \<open>Number::toString\<close> search tries 1 to 17 digits, which suffice for every double. The
  decimal lemmas assume values below \<open>10^15\<close>, which covers every id and count the server
  can produce from a payload.

  \<^bold>\<open>Not modelled.\<close>
  \<^item> The MCP SDK and the stdio transport (framing, sessions). The model starts from a
    delivered request; the tool name is a string, as the SDK's schema requires.
  \<^item> \<open>node-fetch\<close> itself. Its outcome is an input.
  \<^item> \<open>JSON.parse\<close> and \<open>JSON.stringify\<close>. Payloads are given as values, so a body
    that is not JSON is the outcome \<open>Response s t None\<close>.
  \<^item> The text of the \<open>console.error\<close> diagnostics, which reaches no result; only the
    conversions they perform before the upstream call are modelled.
\<close>

section \<open>Scenario payloads of the specification\<close>

text \<open>The node of the spec's second end-to-end scenario; its score is the double nearest
  to 0.9.\<close>

definition intro_node :: jsval where
  "intro_node = JObj [(js ''text'', JStr (js ''DBMS basics'')),
                      (js ''score'', JNum (8106479329266893 / 9007199254740992)),
                      (js ''metadata'', JObj [(js ''file_name'', JStr (js ''intro.pdf''))])]"

definition intro_item :: jsval where
  "intro_item = JObj [(js ''node'', intro_node)]"

definition intro_payload :: jsval where
  "intro_payload = JObj [(js ''retrieval_nodes'', JArr [intro_item])]"

definition null_item_payload :: jsval where
  "null_item_payload = JObj [(js ''retrieval_nodes'', JArr [intro_item, JNull])]"

definition dbms_question :: jsval where
  "dbms_question = JStr (js ''what is a dbms'')"

text \<open>A legacy payload of five source nodes (the spec's fourth scenario).\<close>

definition chunk_node :: jsval where
  "chunk_node = JObj [(js ''text'', JStr (js ''chunk''))]"

definition legacy5_payload :: jsval where
  "legacy5_payload = JObj [(js ''source_nodes'', JArr [chunk_node, chunk_node, chunk_node, chunk_node, chunk_node])]"

text \<open>Legacy payloads whose source list is an object, and whose list is under
  \<open>sources\<close> only.\<close>

definition object_sources_payload :: jsval where
  "object_sources_payload = JObj [(js ''source_nodes'', JObj [(js ''0'', chunk_node)])]"

definition sources_only_payload :: jsval where
  "sources_only_payload = JObj [(js ''sources'', JArr [chunk_node])]"

text \<open>Networks: one that answers every request with status 200 and the given JSON body, one
  that always fails, and one that answers only the request \<open>queryRAG\<close> sends for the
  scenario question.\<close>

definition payload_net :: "jsval \<Rightarrow> network" where
  "payload_net p = (\<lambda>_. Response 200 (js ''OK'') (Some p))"

definition down_net :: network where
  "down_net = (\<lambda>_. NetworkError)"

definition demo_env :: env where
  "demo_env = map_of [(js ''LLAMA_CLOUD_API_KEY'', js ''llx-key''),
                      (js ''LLAMA_CLOUD_ORGANIZATION_ID'', js ''org-1''),
                      (js ''LLAMA_CLOUD_PIPELINE_ID'', js ''p1'')]"


definition question_args :: jsval where
  "question_args = JObj [(js ''question'', dbms_question)]"

text \<open>The scenario question with an extra field that no tool reads.\<close>

definition question_extra_args :: jsval where
  "question_extra_args = JObj [(js ''question'', dbms_question), (js ''top_k'', JNum 3)]"

text \<open>A query result whose only source has a string score.\<close>

definition string_score_result :: query_result where
  "string_score_result = mk_query_result (JStr []) [\<lparr>src_id = 1, src_filename = JStr (js ''a.pdf''),
     src_score = JStr (js ''0.87''), src_preview = js ''...''\<rparr>] dbms_question"

lemmas scenario_eval = intro_node_def intro_item_def intro_payload_def null_item_payload_def
  dbms_question_def legacy5_payload_def chunk_node_def
  payload_net_def down_net_def question_args_def question_extra_args_def
  object_sources_payload_def sources_only_payload_def

section \<open>Witnesses of the component theorems\<close>

lemma intro_payload_rn:
  "get_prop intro_payload K_retrieval_nodes = Inr (JArr [intro_item])"
  by (simp add: intro_payload_def js_lit)

lemma intro_item_ok: "\<forall>it\<in>set [intro_item]. \<not> nullish it"
  by (simp add: intro_item_def js_lit)

lemma intro_nodes: "node_list [intro_item] = [intro_node]"
  by (simp add: node_list_def intro_item_def intro_node_def js_lit)

lemma intro_node_text: "text_value intro_node = JStr (js ''DBMS basics'')"
  by (simp add: text_value_def intro_node_def js_lit)

theorem process_query_ids_witness:
  "\<exists>r. process_query intro_payload dbms_question = Inr r
      \<and> map src_id (qr_sources r) = [1..<Suc (length (qr_sources r))]
      \<and> qr_total_sources r = length (qr_sources r) \<and> length (qr_sources r) = 1"
proof -
  have "process_query intro_payload dbms_question = Inr
     (mk_query_result (JStr (js ''Based on the found documents:'' @ nl @ nl @ js ''DBMS basics''))
        [source_of 0 intro_node (js ''DBMS basics'')] dbms_question)"
    by (simp add: intro_payload_def intro_item_def intro_node_def normalizer_eval
          source_of_def js_lit)
  with Normalizer.process_query_ids [OF this] show ?thesis by (simp add: mk_query_result_def)
qed

theorem process_query_new_format_witness:
  "get_prop intro_payload K_retrieval_nodes = Inr (JArr [intro_item])
   \<and> \<not> nullish intro_item \<and> is_str (text_value intro_node)
   \<and> (\<exists>a. process_query intro_payload dbms_question =
          Inr (mk_query_result a [source_of 0 intro_node (js ''DBMS basics'')] dbms_question))"
proof -
  have h3: "\<forall>n\<in>set (node_list [intro_item]). is_str (text_value n)"
    by (simp add: intro_nodes intro_node_text js_lit)
  have "\<exists>a. process_query intro_payload dbms_question =
          Inr (mk_query_result a (map2 (\<lambda>i n. source_of i n (str_of (text_value n)))
                 [0..<length (node_list [intro_item])] (node_list [intro_item])) dbms_question)"
    by (rule Normalizer.process_query_new_format [OF intro_payload_rn intro_item_ok h3])
  then show ?thesis
    using intro_payload_rn intro_item_ok by (simp add: intro_nodes intro_node_text js_lit)
qed

theorem new_format_answer_spec_witness:
  "truthy intro_node \<and> is_str (text_value intro_node)
   \<and> new_format_answer [intro_node] =
       Inr (JStr (js ''Based on the found documents:'' @ nl @ nl @ js ''DBMS basics''))"
proof -
  have t: "truthy intro_node" by (simp add: intro_node_def)
  then have h: "\<forall>n\<in>set [intro_node]. truthy n \<and> is_str (text_value n)"
    by (simp add: intro_node_text js_lit)
  show ?thesis
    using t h Normalizer.new_format_answer_spec [OF h]
    by (simp add: intro_node_text js_lit)
qed

theorem node_preview_bounds_witness:
  "node_preview 150 intro_node = Inr (js ''DBMS basics...'')
   \<and> length (js ''DBMS basics...'') \<le> 150 + 3
   \<and> (\<exists>q. js ''DBMS basics...'' = q @ js ''...'' \<and> length q \<le> 150)"
proof -
  have h: "node_preview 150 intro_node = Inr (js ''DBMS basics...'')"
    by (simp add: normalizer_eval intro_node_def js_lit)
  show ?thesis using h Normalizer.node_preview_bounds [OF h] by blast
qed

theorem process_query_nullish_item_witness:
  "get_prop null_item_payload K_retrieval_nodes = Inr (JArr [intro_item, JNull])
   \<and> JNull \<in> set [intro_item, JNull] \<and> nullish JNull
   \<and> process_query null_item_payload dbms_question = Inl (ReadOfNullish K_node)"
proof -
  have h1: "get_prop null_item_payload K_retrieval_nodes = Inr (JArr [intro_item, JNull])"
    by (simp add: null_item_payload_def js_lit)
  have h2: "JNull \<in> set [intro_item, JNull]" by simp
  have h3: "nullish JNull" by (simp add: nullish_def)
  show ?thesis using h1 h2 h3 Normalizer.process_query_nullish_item [OF h1 h2 h3] by blast
qed

theorem process_query_no_fields_witness:
  "get_prop (JObj []) K_retrieval_nodes = Inr JUndef \<and> (\<forall>xs. JUndef \<noteq> JArr xs)
   \<and> \<not> truthy (opt_get (JObj []) K_answer) \<and> \<not> truthy (opt_get (JObj []) K_response)
   \<and> \<not> truthy (opt_get (JObj []) K_source_nodes) \<and> \<not> truthy (opt_get (JObj []) K_sources)
   \<and> process_query (JObj []) dbms_question =
       Inr (mk_query_result (JStr (js ''No answer received.'')) [] dbms_question)"
proof -
  have h1: "get_prop (JObj []) K_retrieval_nodes = Inr JUndef" by simp
  have h2: "\<forall>xs. JUndef \<noteq> JArr xs" by simp
  have h3: "\<not> truthy (opt_get (JObj []) K_answer)" "\<not> truthy (opt_get (JObj []) K_response)"
    "\<not> truthy (opt_get (JObj []) K_source_nodes)" "\<not> truthy (opt_get (JObj []) K_sources)"
    by (simp_all add: opt_get_def)
  show ?thesis
    using h1 h2 h3 Normalizer.process_query_no_fields [OF h1 h2 h3] by blast
qed

theorem search_agrees_with_query_witness:
  "get_prop intro_payload K_retrieval_nodes = Inr (JArr [intro_item])
   \<and> (\<exists>r s. process_query intro_payload dbms_question = Inr r
        \<and> process_search intro_payload dbms_question = Inr s
        \<and> length (sr_documents s) = 1 \<and> length (qr_sources r) = 1
        \<and> doc_filename (sr_documents s ! 0) = src_filename (qr_sources r ! 0)
        \<and> doc_score (sr_documents s ! 0) = src_score (qr_sources r ! 0))"
proof -
  have q: "process_query intro_payload dbms_question = Inr
     (mk_query_result (JStr (js ''Based on the found documents:'' @ nl @ nl @ js ''DBMS basics''))
        [source_of 0 intro_node (js ''DBMS basics'')] dbms_question)"
    by (simp add: intro_payload_def intro_item_def intro_node_def normalizer_eval
          source_of_def js_lit)
  from Normalizer.search_agrees_with_query [OF intro_payload_rn q, of dbms_question]
  obtain s where "process_search intro_payload dbms_question = Inr s"
      and "length (sr_documents s) = 1"
      and "doc_filename (sr_documents s ! 0) = src_filename (source_of 0 intro_node (js ''DBMS basics''))"
      and "doc_score (sr_documents s ! 0) = src_score (source_of 0 intro_node (js ''DBMS basics''))"
    by (auto simp: mk_query_result_def)
  with q intro_payload_rn show ?thesis by (auto simp: mk_query_result_def)
qed

theorem call_tool_no_arguments_witness:
  "\<not> truthy JUndef \<and>
   call_tool down_net (load_config demo_env) [] (js ''query_rag'') JUndef =
     Inl (NoArguments (js ''query_rag''))"
  using Dispatcher.call_tool_no_arguments [of JUndef] by simp

theorem call_tool_upstream_error_witness:
  "truthy question_args \<and> get_prop question_args K_question = Inr dbms_question \<and>
   js_to_string dbms_question = Inr (js ''what is a dbms'') \<and>
   query_llamacloud down_net (load_config demo_env) dbms_question = Inl FetchFailed \<and>
   call_tool down_net (load_config demo_env) [] (js ''query_rag'') question_args = Inl FetchFailed"
proof -
  have a: "truthy question_args" by (simp add: question_args_def)
  have g: "get_prop question_args K_question = Inr dbms_question"
    by (simp add: question_args_def js_lit)
  have s: "js_to_string dbms_question = Inr (js ''what is a dbms'')" by (simp add: dbms_question_def)
  have u: "query_llamacloud down_net (load_config demo_env) dbms_question = Inl FetchFailed"
    by (simp add: query_llamacloud_def down_net_def)
  show ?thesis
    using a g s u Dispatcher.call_tool_upstream_error [OF a _ u, of "js ''query_rag''"] by simp
qed


theorem score_text_two_decimals_witness:
  "\<exists>ip fp. score_text (JNum (8106479329266893 / 9007199254740992)) = Inr (JStr (ip @ js ''.'' @ fp))
     \<and> ip \<noteq> [] \<and> length fp = 2 \<and> read_decimal (ip @ fp) = 90"
proof -
  have "\<lfloor>(8106479329266893 / 9007199254740992 :: rat) * 100 + 1/2\<rfloor> = 90"
    by (simp add: floor_frac)
  then show ?thesis
    using Renderer.score_text_two_decimals [of "8106479329266893 / 9007199254740992"] by simp
qed

theorem render_query_fails_iff_witness:
  "\<exists>e. render_query string_score_result = Inl e"
proof -
  have "\<exists>s\<in>set (qr_sources string_score_result).
          \<not> nullish (src_score s) \<and> (\<forall>x. src_score s \<noteq> JNum x)"
    by (simp add: string_score_result_def mk_query_result_def nullish_def)
  then show ?thesis using Renderer.render_query_fails_iff [of string_score_result] by blast
qed

theorem call_tool_single_text_witness:
  "\<exists>t. call_tool down_net (load_config demo_env) [] (js ''get_index_info'') question_args = Inr [Text t]"
proof -
  have "call_tool down_net (load_config demo_env) [] (js ''get_index_info'') question_args =
          Inr [Text (render_info (mk_index_info (load_config demo_env) []))]"
    by (simp add: call_tool_def get_index_info_def question_args_def js_lit)
  with Dispatcher.call_tool_single_text [OF this] show ?thesis by blast
qed

theorem query_llamacloud_errors_witness:
  "down_net (llamacloud_request (load_config demo_env) dbms_question) = NetworkError \<and>
   query_llamacloud down_net (load_config demo_env) dbms_question = Inl FetchFailed"
proof -
  have h: "down_net (llamacloud_request (load_config demo_env) dbms_question) = NetworkError"
    by (simp add: down_net_def)
  then show ?thesis
    using Upstream.query_llamacloud_errors [of down_net "load_config demo_env" dbms_question FetchFailed]
    by simp
qed

lemma demo_env_fields:
  "env_str demo_env (js ''LLAMA_CLOUD_API_KEY'') = js ''llx-key''"
  "env_str demo_env (js ''LLAMA_CLOUD_ORGANIZATION_ID'') = js ''org-1''"
  "env_str demo_env (js ''LLAMA_CLOUD_PIPELINE_ID'') = js ''p1''"
  by (simp_all add: env_str_def demo_env_def js_lit)

theorem config_ok_iff_witness:
  "env_str demo_env (js ''LLAMA_CLOUD_PIPELINE_ID'') \<noteq> [] \<and> config_ok (load_config demo_env)"
proof -
  have k: "env_str demo_env (js ''LLAMA_CLOUD_API_KEY'') \<noteq> []"
    and o: "env_str demo_env (js ''LLAMA_CLOUD_ORGANIZATION_ID'') \<noteq> []"
    and i: "env_str demo_env (js ''LLAMA_CLOUD_PIPELINE_ID'') \<noteq> []"
    by (simp_all only: demo_env_fields) (simp_all add: js_def)
  show ?thesis using Config.config_ok_iff [of demo_env] k o i by blast
qed

lemma demo_config_ok: "config_ok (load_config demo_env)"
  unfolding config_ok_def load_config_def Let_def demo_env_fields
  by (simp add: resolve_url_def js_def)

lemma empty_env_not_ok: "\<not> config_ok (load_config (\<lambda>_. None))"
  by (simp add: config_ok_def load_config_def Let_def env_str_def js_lit)

lemma down_query_rag:
  "call_tool down_net (load_config demo_env) [] (js ''query_rag'') question_args = Inl FetchFailed"
  by (simp add: call_tool_def dispatcher_eval query_llamacloud_def down_net_def question_args_def
      dbms_question_def js_lit)

theorem boot_serving_config_witness:
  "steps (Boot demo_env) [Construct, Run down_net True] (Serving (load_config demo_env)) \<and>
   load_config demo_env = load_config demo_env \<and> config_ok (load_config demo_env)"
proof -
  have r: "steps (Boot demo_env) [Construct, Run down_net True] (Serving (load_config demo_env))"
    by (auto intro!: steps.intros step.intros demo_config_ok)
  show ?thesis using r Server.boot_serving_config [OF r] by blast
qed

theorem served_statelessly_witness:
  "steps (Boot demo_env)
     ([Construct, Run down_net True,
       Serve down_net [] (CallTool (js ''query_rag'') question_args) (Inl FetchFailed)] @
      [Serve down_net [] ListTools (Inr (ToolList tool_definitions))])
     (Serving (load_config demo_env)) \<and>
   Inr (ToolList tool_definitions) = handle_request down_net (load_config demo_env) [] ListTools"
proof -
  have r: "steps (Boot demo_env)
     ([Construct, Run down_net True,
       Serve down_net [] (CallTool (js ''query_rag'') question_args) (Inl FetchFailed)] @
      Serve down_net [] ListTools (Inr (ToolList tool_definitions)) # [])
     (Serving (load_config demo_env))"
  proof -
    let ?c = "load_config demo_env"
    have s1: "step (Boot demo_env) Construct (Constructed ?c)" by (rule construct_ok [OF demo_config_ok])
    have s2: "step (Constructed ?c) (Run down_net True) (Serving ?c)" by (rule run_ok)
    have s3: "step (Serving ?c) (Serve down_net [] (CallTool (js ''query_rag'') question_args)
                (Inl FetchFailed)) (Serving ?c)"
      by (rule serve) (simp add: down_query_rag)
    have s4: "step (Serving ?c) (Serve down_net [] ListTools (Inr (ToolList tool_definitions))) (Serving ?c)"
      by (rule serve) simp
    show ?thesis unfolding append.simps using s1 s2 s3 s4 by (blast intro: steps.intros)
  qed
  show ?thesis by (rule conjI [OF r Server.served_statelessly [OF r]])
qed

theorem probe_never_blocks_witness:
  "config_ok (load_config demo_env) \<and>
   steps (Boot demo_env) [Construct, Run down_net True] (Serving (load_config demo_env))"
  using demo_config_ok Server.probe_never_blocks [OF demo_config_ok, of down_net] by blast

theorem misconfigured_never_serves_witness:
  "\<not> config_ok (load_config (\<lambda>_. None)) \<and> steps (Boot (\<lambda>_. None)) [Construct] (Exited 1) \<and>
   (Exited 1 = Boot (\<lambda>_. None) \<or> Exited 1 = Exited (1::nat))"
proof -
  have r: "steps (Boot (\<lambda>_. None)) [Construct] (Exited 1)"
    by (auto intro!: steps.intros step.intros empty_env_not_ok)
  show ?thesis using empty_env_not_ok r Server.misconfigured_never_serves [OF empty_env_not_ok r] by blast
qed

theorem make_source_fallback_name_witness:
  "make_source 2 chunk_node = Inr (source_of 2 chunk_node (js ''chunk'')) \<and>
   \<not> truthy (opt_get (opt_get chunk_node K_metadata) K_file_name) \<and>
   \<not> truthy (opt_get (opt_get chunk_node K_metadata) K_filename) \<and> Suc 2 < (10::nat) ^ 15 \<and>
   src_filename (source_of 2 chunk_node (js ''chunk'')) = JStr (js ''Document '' @ decimal 3)"
proof -
  have m: "make_source 2 chunk_node = Inr (source_of 2 chunk_node (js ''chunk''))"
    by (rule make_source_ok) (simp add: normalizer_eval chunk_node_def js_lit)
  have f1: "\<not> truthy (opt_get (opt_get chunk_node K_metadata) K_file_name)"
    and f2: "\<not> truthy (opt_get (opt_get chunk_node K_metadata) K_filename)"
    by (simp_all add: chunk_node_def js_lit)
  have b: "Suc 2 < (10::nat) ^ 15" by simp
  show ?thesis using m f1 f2 b Normalizer.make_source_fallback_name [OF m f1 f2 b] by simp
qed

theorem process_query_legacy_not_array_witness:
  "get_prop object_sources_payload K_retrieval_nodes = Inr JUndef \<and>
   legacy_list object_sources_payload = Inr (JObj [(js ''0'', chunk_node)]) \<and>
   process_query object_sources_payload dbms_question = Inl (NotAFunction M_map)"
proof -
  have r: "get_prop object_sources_payload K_retrieval_nodes = Inr JUndef"
    by (simp add: object_sources_payload_def js_lit)
  have l: "legacy_list object_sources_payload = Inr (JObj [(js ''0'', chunk_node)])"
    by (simp add: legacy_list_def object_sources_payload_def js_lit)
  have "\<forall>xs. JUndef \<noteq> JArr xs" and "truthy (JObj [(js ''0'', chunk_node)])"
    and "\<forall>xs. JObj [(js ''0'', chunk_node)] \<noteq> JArr xs" by simp_all
  with r l show ?thesis using Normalizer.process_query_legacy_not_array [OF r _ l] by blast
qed

theorem process_search_ignores_sources_witness:
  "get_prop sources_only_payload K_retrieval_nodes = Inr JUndef \<and>
   get_prop sources_only_payload K_source_nodes = Inr JUndef \<and>
   process_search sources_only_payload dbms_question = Inr (mk_search_result dbms_question []) \<and>
   length (qr_sources (projr (process_query sources_only_payload dbms_question))) = 1"
proof -
  have r: "get_prop sources_only_payload K_retrieval_nodes = Inr JUndef"
    and s: "get_prop sources_only_payload K_source_nodes = Inr JUndef"
    by (simp_all add: sources_only_payload_def js_lit)
  have q: "length (qr_sources (projr (process_query sources_only_payload dbms_question))) = 1"
    by (simp add: normalizer_eval sources_only_payload_def chunk_node_def js_lit)
  show ?thesis
    using r s q Normalizer.process_search_ignores_sources [OF r _ s, of dbms_question] by simp
qed

theorem process_search_legacy_all_witness:
  "get_prop legacy5_payload K_retrieval_nodes = Inr JUndef \<and>
   get_prop legacy5_payload K_source_nodes =
     Inr (JArr [chunk_node, chunk_node, chunk_node, chunk_node, chunk_node]) \<and>
   (\<exists>r. process_search legacy5_payload dbms_question = Inr r \<and>
        sr_total_found r = 5 \<and> map doc_id (sr_documents r) = [1, 2, 3, 4, 5])"
proof -
  have r: "get_prop legacy5_payload K_retrieval_nodes = Inr JUndef"
    and s: "get_prop legacy5_payload K_source_nodes =
              Inr (JArr [chunk_node, chunk_node, chunk_node, chunk_node, chunk_node])"
    by (simp_all add: legacy5_payload_def js_lit)
  obtain r0 where p: "process_search legacy5_payload dbms_question = Inr r0"
    using r s by (simp add: process_search_def map_idx_res_def make_document_def node_filename_def
                   fallback_name_def node_score_def node_preview_def substring0_def node_text_def
                   chunk_node_def js_lit)
  have "\<forall>xs. JUndef \<noteq> JArr xs" by simp
  with Normalizer.process_search_legacy_all [OF r _ s p] show ?thesis
    using r s p by (simp add: upt_rec)
qed

theorem falsy_score_line_witness:
  "make_source 0 chunk_node = Inr (source_of 0 chunk_node (js ''chunk'')) \<and>
   \<not> truthy (opt_get chunk_node K_score) \<and>
   js_to_string (src_filename (source_of 0 chunk_node (js ''chunk''))) = Inr (js ''Document 1'') \<and>
   source_line (source_of 0 chunk_node (js ''chunk'')) =
     Inr (js ''1. Document 1 (relevance: 0.00)'' @ nl @ js ''   chunk...'')"
proof -
  have m: "make_source 0 chunk_node = Inr (source_of 0 chunk_node (js ''chunk''))"
    by (rule make_source_ok) (simp add: normalizer_eval chunk_node_def js_lit)
  have z: "\<not> truthy (opt_get chunk_node K_score)" by (simp add: chunk_node_def js_lit)
  have f: "js_to_string (src_filename (source_of 0 chunk_node (js ''chunk''))) = Inr (js ''Document 1'')"
    by (simp add: source_of_def fallback_name_def number_eval chunk_node_def js_lit)
  have b: "Suc 0 < (10::nat) ^ 15" by simp
  show ?thesis using m z f Renderer.falsy_score_line [OF m z f b]
    by (simp add: source_of_def decimal.simps js_lit)
qed

theorem source_line_id_roundtrip_witness:
  "source_line (source_of 0 intro_node (js ''DBMS basics'')) =
     Inr (js ''1. intro.pdf (relevance: 0.90)'' @ nl @ js ''   DBMS basics...'') \<and>
   (\<exists>ds rest. js ''1. intro.pdf (relevance: 0.90)'' @ nl @ js ''   DBMS basics...'' =
       ds @ js ''. '' @ rest \<and> ds \<noteq> [] \<and> read_decimal ds = 1)"
proof -
  have h: "source_line (source_of 0 intro_node (js ''DBMS basics'')) =
     Inr (js ''1. intro.pdf (relevance: 0.90)'' @ nl @ js ''   DBMS basics...'')"
    by (simp add: source_of_def renderer_eval normalizer_eval number_eval scenario_eval js_lit)
  have b: "src_id (source_of 0 intro_node (js ''DBMS basics'')) < 10 ^ 15"
    by (simp add: source_of_def)
  show ?thesis using h Renderer.source_line_id_roundtrip [OF h b] by (simp add: source_of_def)
qed

theorem process_query_refines_spec_witness:
  "wf_payload intro_payload \<and>
   (\<exists>r. process_query intro_payload dbms_question = Inr r \<and>
        abs_result r = spec_normalize intro_payload dbms_question)"
proof -
  have w: "wf_payload intro_payload"
    by (simp add: wf_payload_def wf_nodes_def wf_node_def ok_str_def is_str_def is_num_def
                  node_list_def scenario_eval js_lit)
  show ?thesis using w Normalizer_Spec.process_query_refines_spec [OF w] by blast
qed

section \<open>Properties across components\<close>

text \<open>C21: A name outside the catalog is rejected with \<open>Unknown tool\<close>: routing compares
  the name exactly with the catalog's three names (no prefix or case folding).\<close>

theorem unknown_tool_outside_catalog:
  "truthy args \<Longrightarrow> name \<notin> set (map tool_name tool_definitions) \<Longrightarrow>
     call_tool net c now name args = Inl (UnknownTool name)"
  by (simp add: call_tool_truthy catalog_eval)

theorem unknown_tool_outside_catalog_witness:
  "truthy question_args \<and> js ''Query_RAG'' \<notin> set (map tool_name tool_definitions) \<and>
   call_tool down_net (load_config demo_env) [] (js ''Query_RAG'') question_args =
     Inl (UnknownTool (js ''Query_RAG''))"
proof -
  have a: "truthy question_args" by (simp add: question_args_def)
  have n: "js ''Query_RAG'' \<notin> set (map tool_name tool_definitions)" by (simp add: catalog_eval js_lit)
  show ?thesis using a n unknown_tool_outside_catalog [OF a n] by blast
qed

text \<open>C22: A catalog tool's call reads only the argument fields its schema declares: two
  truthy arguments objects that agree on those fields give the same result, whatever other
  fields they carry (for \<open>get_index_info\<close>, which declares none, whatever they hold).\<close>

theorem call_tool_reads_declared_fields:
  assumes "t \<in> set tool_definitions" and "truthy args" and "truthy args'"
    and "\<forall>k. key_name k \<in> set (schema_properties t) \<longrightarrow> opt_get args k = opt_get args' k"
  shows "call_tool net c now (tool_name t) args = call_tool net c now (tool_name t) args'"
proof -
  have g: "\<And>k. get_prop args k = Inr (opt_get args k)" "\<And>k. get_prop args' k = Inr (opt_get args' k)"
    using assms(2,3) by (simp_all add: get_prop_not_nullish truthy_not_nullish)
  from assms(1) consider "t = query_rag_tool" | "t = search_documents_tool" | "t = get_index_info_tool"
    by (auto simp: tool_definitions_def)
  then show ?thesis
  proof cases
    case 1
    with assms(4) have "opt_get args K_question = opt_get args' K_question"
      by (simp add: schema_properties_tools)
    with 1 assms(2,3) show ?thesis by (simp add: call_tool_truthy g tool_names js_def)
  next
    case 2
    with assms(4) have "opt_get args K_query = opt_get args' K_query"
      and "opt_get args K_top_k = opt_get args' K_top_k"
      by (simp_all add: schema_properties_tools)
    with 2 assms(2,3) show ?thesis by (simp add: call_tool_truthy g tool_names js_def)
  next
    case 3
    with assms(2,3) show ?thesis by (simp add: call_tool_truthy tool_names js_def)
  qed
qed

theorem call_tool_reads_declared_fields_witness:
  "query_rag_tool \<in> set tool_definitions \<and> truthy question_args \<and> truthy question_extra_args \<and>
   call_tool down_net (load_config demo_env) [] (tool_name query_rag_tool) question_args =
   call_tool down_net (load_config demo_env) [] (tool_name query_rag_tool) question_extra_args"
proof -
  have t: "query_rag_tool \<in> set tool_definitions" by (simp add: tool_definitions_def)
  have a: "truthy question_args" "truthy question_extra_args"
    by (simp_all add: question_args_def question_extra_args_def)
  have f: "\<forall>k. key_name k \<in> set (schema_properties query_rag_tool) \<longrightarrow>
             opt_get question_args k = opt_get question_extra_args k"
    by (intro allI impI, case_tac k)
       (simp_all add: schema_properties_tools question_args_def question_extra_args_def js_lit)
  show ?thesis using t a call_tool_reads_declared_fields [OF t a f] by blast
qed

text \<open>C30 (the error taxonomy of spec section 7): a tool call fails only in one of four ways.
  \<^item> Missing arguments, when the arguments are falsy.
  \<^item> An unknown tool, exactly for names outside the catalog.
  \<^item> An upstream error: fetch failure, status, or a body that is not JSON.
  \<^item> An engine TypeError: reading or calling a member of \<open>null\<close>/\<open>undefined\<close>,
    calling a method the value lacks, or converting to a string an object with an own
    \<open>toString\<close> member (the logged arguments, the answer, a file name).
  A catalog name is therefore never rejected as unknown, and no other error arises.\<close>

theorem call_tool_error_taxonomy:
  "call_tool net c now name args = Inl e \<Longrightarrow>
     (\<not> truthy args \<and> e = NoArguments name) \<or>
     (truthy args \<and> name \<notin> set (map tool_name tool_definitions) \<and> e = UnknownTool name) \<or>
     upstream_error e \<or> type_error e"
  by (drule call_tool_Inl) (simp add: catalog_eval)

theorem call_tool_error_taxonomy_witness:
  "call_tool down_net (load_config demo_env) [] (js ''query_rag'') question_args = Inl FetchFailed \<and>
   upstream_error FetchFailed"
  using down_query_rag call_tool_error_taxonomy [OF down_query_rag] by simp

end
